theory Spec2Isabelle
  imports Complex_Main
begin

section \<open>Shoe store: session cart, checkout and order cancellation\<close>

text \<open>
  A shallow embedding of the cart routes (\<^verbatim>\<open>routes/cart.js\<close>), the order routes
  (checkout and cancellation) and the Mongoose schemas and save hooks of
  \<^verbatim>\<open>models/index.js\<close>.

  Conventions of the embedding:
  \<^item> a JavaScript Number holding money or a shoe size is a \<open>rat\<close>; the arithmetic of the
    model is exact, the rounding of IEEE doubles is not modelled;
  \<^item> a Number holding a count (stock, quantity, sold count) is an \<open>int\<close>; request bodies
    are taken to be already typed, so \<^verbatim>\<open>parseFloat\<close> and \<^verbatim>\<open>parseInt\<close> are the identity;
  \<^item> a value that may be \<^verbatim>\<open>undefined\<close> is an \<open>option\<close>;
  \<^item> the product collection is a map from ids to documents, the order collection a list
    in insertion order; the session holds the logged-in user and the cart;
  \<^item> every route returns its response (\<open>Inl\<close> an error, \<open>Inr\<close> the payload) together with
    the state it leaves behind, so that what a failing request has already written
    stays visible;
  \<^item> a save validates the whole document against its Mongoose schema (\<^verbatim>\<open>required\<close>,
    \<^verbatim>\<open>min\<close>, \<^verbatim>\<open>max\<close>, \<^verbatim>\<open>enum\<close>, \<^verbatim>\<open>maxlength\<close>) and then runs the schema's
    pre-save hook; an update sent to the database (\<^verbatim>\<open>findByIdAndUpdate\<close>) does neither;
    index constraints of the database and failures of the infrastructure are outside the
    model.
\<close>

subsection \<open>Documents\<close>

type_synonym objectId = string

record sizeOption =
  s_size :: rat
  s_stock :: int

record image =
  img_url :: string
  img_isPrimary :: bool

record review =
  r_user :: objectId
  r_rating :: int
  r_comment :: string

text \<open>
  The product document: the fields these routes read or write and every field the schema
  puts a validator on. Colours, features, materials, tags, the two flags and the rating
  count carry no validator and play no part here.
\<close>

record product =
  p_name :: string
  p_slug :: string
  p_description :: string
  p_shortDescription :: "string option"
  p_brand :: string
  p_category :: string
  p_gender :: string
  p_price :: rat
  p_salePrice :: "rat option"
  p_sizes :: "sizeOption list"
  p_images :: "image list"
  p_ratingAverage :: rat
  p_reviews :: "review list"
  p_totalStock :: int
  p_soldCount :: int

record cartItem =
  ci_productId :: objectId
  ci_name :: string
  ci_brand :: string
  ci_price :: rat
  ci_originalPrice :: rat
  ci_size :: rat
  ci_color :: string
  ci_quantity :: int
  ci_image :: string
  ci_slug :: string
  ci_maxStock :: int

record cart =
  items :: "cartItem list"
  subtotal :: rat
  shipping :: rat
  tax :: rat
  total :: rat

text \<open>
  The failures the routes answer with. \<open>LoginRequired\<close> is the answer of the
  \<^verbatim>\<open>isAuthenticated\<close> middleware; \<open>ServerError\<close> carries the message of a handler's
  \<^verbatim>\<open>catch\<close> block (status 500); \<open>ValidationError\<close> is what a Mongoose save throws.
\<close>

datatype error =
    LoginRequired
  | ProductNotFound
  | SizeNotAvailable
  | OnlyAvailable int
  | ItemNotInCart
  | CartEmpty
  | ProductGone string
  | NoLongerAvailable string rat
  | OrderNotFound
  | CannotCancel
  | ValidationError
  | ServerError string

text \<open>
  The two answers of add-to-cart and update that refuse a quantity for lack of stock:
  \<^verbatim>\<open>'Selected size is not available in requested quantity'\<close> and
  \<^verbatim>\<open>`Only ${sizeOption.stock} items available...`\<close>.
\<close>

fun out_of_stock :: "error \<Rightarrow> bool" where
  "out_of_stock SizeNotAvailable = True"
| "out_of_stock (OnlyAvailable n) = True"
| "out_of_stock e = False"

subsection \<open>Array helpers\<close>

text \<open>\<^verbatim>\<open>Array.prototype.findIndex\<close>, with \<open>None\<close> for \<open>-1\<close>.\<close>

fun findIndex :: "('a \<Rightarrow> bool) \<Rightarrow> 'a list \<Rightarrow> nat option" where
  "findIndex P [] = None"
| "findIndex P (x # xs) = (if P x then Some 0 else map_option Suc (findIndex P xs))"

text \<open>\<^verbatim>\<open>xs.splice(i, 1)\<close>: the array without its \<open>i\<close>-th element.\<close>

definition splice1 :: "nat \<Rightarrow> 'a list \<Rightarrow> 'a list" where
  "splice1 i xs = take i xs @ drop (Suc i) xs"

subsection \<open>Product virtuals\<close>

definition primaryImage :: "product \<Rightarrow> string" where
  "primaryImage p =
     (case find img_isPrimary (p_images p) of
        Some primary \<Rightarrow> img_url primary
      | None \<Rightarrow>
         (case p_images p of
            [] \<Rightarrow> ''/images/placeholder.jpg''
          | i # _ \<Rightarrow> if img_url i = [] then ''/images/placeholder.jpg'' else img_url i))"

definition effectivePrice :: "product \<Rightarrow> rat" where
  "effectivePrice p =
     (case p_salePrice p of
        None \<Rightarrow> p_price p
      | Some sp \<Rightarrow> if sp \<noteq> 0 \<and> sp < p_price p then sp else p_price p)"

subsection \<open>The session cart (routes/cart.js)\<close>

definition emptyCart :: cart where
  "emptyCart = \<lparr>items = [], subtotal = 0, shipping = 0, tax = 0, total = 0\<rparr>"

text \<open>\<^verbatim>\<open>initCart\<close> creates the cart in the session when there is none and returns it.\<close>

definition initCart :: "cart option \<Rightarrow> cart" where
  "initCart sc = (case sc of None \<Rightarrow> emptyCart | Some c \<Rightarrow> c)"

definition calculateTotals :: "cart \<Rightarrow> cart" where
  "calculateTotals c =
     (let sub = foldl (\<lambda>sum item. sum + ci_price item * of_int (ci_quantity item)) 0 (items c);
          ship = (if sub \<ge> 100 then 0 else 999 / 100);
          tx = sub * (8 / 100)
      in c\<lparr>subtotal := sub, shipping := ship, tax := tx, total := sub + ship + tx\<rparr>)"

record addRequest =
  ar_productId :: objectId
  ar_size :: rat
  ar_color :: "string option"
  ar_quantity :: "int option"

text \<open>
  \<^verbatim>\<open>POST /api/cart/add\<close>. The result is the response and the session's cart afterwards.
  The comparison \<^verbatim>\<open>item.color === color\<close> is between the stored string and the
  request's value, which may be \<^verbatim>\<open>undefined\<close>; the stored colour of a new line is
  \<^verbatim>\<open>color || 'Default'\<close>.
\<close>

definition add_matches :: "addRequest \<Rightarrow> cartItem \<Rightarrow> bool" where
  "add_matches r item \<longleftrightarrow>
     ci_productId item = ar_productId r \<and> ci_size item = ar_size r \<and>
     Some (ci_color item) = ar_color r"

definition new_line :: "addRequest \<Rightarrow> product \<Rightarrow> sizeOption \<Rightarrow> int \<Rightarrow> cartItem" where
  "new_line r p so q =
     \<lparr>ci_productId = ar_productId r, ci_name = p_name p, ci_brand = p_brand p,
      ci_price = effectivePrice p, ci_originalPrice = p_price p, ci_size = ar_size r,
      ci_color = (case ar_color r of None \<Rightarrow> ''Default''
                  | Some c \<Rightarrow> if c = [] then ''Default'' else c),
      ci_quantity = q, ci_image = primaryImage p, ci_slug = p_slug p,
      ci_maxStock = s_stock so\<rparr>"

text \<open>The destructuring default \<^verbatim>\<open>quantity = 1\<close>.\<close>

definition requested :: "addRequest \<Rightarrow> int" where
  "requested r = (case ar_quantity r of None \<Rightarrow> 1 | Some q \<Rightarrow> q)"

definition cart_add ::
  "(objectId \<rightharpoonup> product) \<Rightarrow> cart option \<Rightarrow> addRequest \<Rightarrow> (error + cart) \<times> cart option" where
  "cart_add db sc r =
     (let quantity = requested r in
      case db (ar_productId r) of
        None \<Rightarrow> (Inl ProductNotFound, sc)
      | Some p \<Rightarrow>
         (case find (\<lambda>s. s_size s = ar_size r) (p_sizes p) of
            None \<Rightarrow> (Inl SizeNotAvailable, sc)
          | Some so \<Rightarrow>
              if s_stock so < quantity then (Inl SizeNotAvailable, sc)
              else
                let c = initCart sc in
                (case findIndex (add_matches r) (items c) of
                   Some i \<Rightarrow>
                     let newQty = ci_quantity (items c ! i) + quantity in
                     if newQty > s_stock so then (Inl (OnlyAvailable (s_stock so)), Some c)
                     else
                       let c' = calculateTotals
                                  (c\<lparr>items := (items c)[i := (items c ! i)\<lparr>ci_quantity := newQty\<rparr>]\<rparr>)
                       in (Inr c', Some c')
                 | None \<Rightarrow>
                     let c' = calculateTotals (c\<lparr>items := items c @ [new_line r p so quantity]\<rparr>)
                     in (Inr c', Some c'))))"

record updateRequest =
  ur_productId :: objectId
  ur_size :: rat
  ur_quantity :: int

definition line_matches :: "objectId \<Rightarrow> rat \<Rightarrow> cartItem \<Rightarrow> bool" where
  "line_matches pid sz item \<longleftrightarrow> ci_productId item = pid \<and> ci_size item = sz"

text \<open>
  \<^verbatim>\<open>PUT /api/cart/update\<close>. When the product or its size is gone, \<^verbatim>\<open>product.sizes\<close> or
  \<^verbatim>\<open>sizeOption.stock\<close> throws a TypeError, which the handler's \<^verbatim>\<open>catch\<close> answers with
  status 500; nothing has been written to the cart at that point.
\<close>

definition cart_update ::
  "(objectId \<rightharpoonup> product) \<Rightarrow> cart option \<Rightarrow> updateRequest \<Rightarrow> (error + cart) \<times> cart option" where
  "cart_update db sc r =
     (let c = initCart sc in
      case findIndex (line_matches (ur_productId r) (ur_size r)) (items c) of
        None \<Rightarrow> (Inl ItemNotInCart, Some c)
      | Some i \<Rightarrow>
          if ur_quantity r \<le> 0 then
            let c' = calculateTotals (c\<lparr>items := splice1 i (items c)\<rparr>) in (Inr c', Some c')
          else
            (case db (ur_productId r) of
               None \<Rightarrow> (Inl (ServerError ''Failed to update cart''), Some c)
             | Some p \<Rightarrow>
                (case find (\<lambda>s. s_size s = ur_size r) (p_sizes p) of
                   None \<Rightarrow> (Inl (ServerError ''Failed to update cart''), Some c)
                 | Some so \<Rightarrow>
                     if ur_quantity r > s_stock so then (Inl (OnlyAvailable (s_stock so)), Some c)
                     else
                       let c' = calculateTotals
                                  (c\<lparr>items := (items c)[i := (items c ! i)\<lparr>ci_quantity := ur_quantity r\<rparr>]\<rparr>)
                       in (Inr c', Some c'))))"

text \<open>\<^verbatim>\<open>DELETE /api/cart/remove\<close>.\<close>

definition cart_remove ::
  "cart option \<Rightarrow> objectId \<Rightarrow> rat \<Rightarrow> (error + cart) \<times> cart option" where
  "cart_remove sc pid sz =
     (let c = initCart sc in
      case findIndex (line_matches pid sz) (items c) of
        None \<Rightarrow> (Inl ItemNotInCart, Some c)
      | Some i \<Rightarrow>
          let c' = calculateTotals (c\<lparr>items := splice1 i (items c)\<rparr>) in (Inr c', Some c'))"

text \<open>\<^verbatim>\<open>DELETE /api/cart/clear\<close> stores a literal cart; it does not call \<^verbatim>\<open>calculateTotals\<close>.\<close>

definition cart_clear :: "cart option \<Rightarrow> (error + cart) \<times> cart option" where
  "cart_clear sc = (Inr emptyCart, Some emptyCart)"

subsection \<open>Product save (models/index.js)\<close>

text \<open>
  The slug of the pre-save hook: \<^verbatim>\<open>name.toLowerCase().replace(/[^a-z0-9]+/g, '-')
  .replace(/(^-|-$)/g, '')\<close>, on ASCII names.
\<close>

definition toLowerCase :: "char \<Rightarrow> char" where
  "toLowerCase c =
     (if 65 \<le> (of_char c :: nat) \<and> (of_char c :: nat) \<le> 90
      then char_of ((of_char c :: nat) + 32) else c)"

definition alnum :: "char \<Rightarrow> bool" where
  "alnum c \<longleftrightarrow>
     (97 \<le> (of_char c :: nat) \<and> (of_char c :: nat) \<le> 122) \<or>
     (48 \<le> (of_char c :: nat) \<and> (of_char c :: nat) \<le> 57)"

text \<open>Each maximal run of other characters becomes one dash; the flag says that a run is open.\<close>

fun dash_runs :: "bool \<Rightarrow> string \<Rightarrow> string" where
  "dash_runs open_run [] = []"
| "dash_runs open_run (c # cs) =
     (if alnum c then c # dash_runs False cs
      else if open_run then dash_runs True cs
      else CHR ''-'' # dash_runs True cs)"

definition trim_dashes :: "string \<Rightarrow> string" where
  "trim_dashes s =
     (let s1 = (case s of [] \<Rightarrow> [] | c # cs \<Rightarrow> if c = CHR ''-'' then cs else c # cs)
      in if s1 \<noteq> [] \<and> last s1 = CHR ''-'' then butlast s1 else s1)"

definition slugify :: "string \<Rightarrow> string" where
  "slugify name = trim_dashes (dash_runs False (map toLowerCase name))"

text \<open>
  \<^verbatim>\<open>productSchema.pre('save')\<close>; the flag is \<^verbatim>\<open>this.isModified('name')\<close>. The hook
  recomputes \<^verbatim>\<open>totalStock\<close> from the size buckets.
\<close>

definition product_pre_save :: "bool \<Rightarrow> product \<Rightarrow> product" where
  "product_pre_save nameModified p =
     (let p1 = (if p_slug p = [] \<or> nameModified then p\<lparr>p_slug := slugify (p_name p)\<rparr> else p)
      in p1\<lparr>p_totalStock := foldl (\<lambda>sum s. sum + s_stock s) 0 (p_sizes p1)\<rparr>)"

text \<open>
  The validators of the product schema, which a save runs over the whole document:
  \<^verbatim>\<open>required\<close> on name, description, brand, category and price (a required string
  must not be empty), the three \<^verbatim>\<open>enum\<close>s, \<^verbatim>\<open>maxlength: 200\<close>, \<^verbatim>\<open>min: 0\<close> on
  price, sale price and every bucket's stock, and the bounds of the ratings.
\<close>

definition product_valid :: "product \<Rightarrow> bool" where
  "product_valid p \<longleftrightarrow>
     p_name p \<noteq> [] \<and> p_description p \<noteq> [] \<and>
     (case p_shortDescription p of None \<Rightarrow> True | Some d \<Rightarrow> length d \<le> 200) \<and>
     p_brand p \<in> set [''Nike'', ''Adidas'', ''Puma'', ''Reebok'', ''New Balance'', ''Converse'',
                        ''Vans'', ''Jordan'', ''Under Armour'', ''Other''] \<and>
     p_category p \<in> set [''Running'', ''Basketball'', ''Casual'', ''Formal'', ''Sneakers'',
                           ''Boots'', ''Sandals'', ''Athletic''] \<and>
     p_gender p \<in> set [''Men'', ''Women'', ''Unisex'', ''Kids''] \<and>
     0 \<le> p_price p \<and>
     (case p_salePrice p of None \<Rightarrow> True | Some sp \<Rightarrow> 0 \<le> sp) \<and>
     list_all (\<lambda>s. 0 \<le> s_stock s) (p_sizes p) \<and>
     0 \<le> p_ratingAverage p \<and> p_ratingAverage p \<le> 5 \<and>
     list_all (\<lambda>r. 1 \<le> r_rating r \<and> r_rating r \<le> 5) (p_reviews p)"

text \<open>\<^verbatim>\<open>product.save()\<close>: validation of the document, then the hook.\<close>

definition product_save :: "bool \<Rightarrow> product \<Rightarrow> error + product" where
  "product_save nameModified p =
     (if product_valid p then Inr (product_pre_save nameModified p) else Inl ValidationError)"

text \<open>
  \<^verbatim>\<open>PUT /admin/inventory/:id\<close> replaces the size buckets and saves. The result is the
  response (the new \<^verbatim>\<open>totalStock\<close>) and the product collection.
\<close>

definition admin_update_stock ::
  "(objectId \<rightharpoonup> product) \<Rightarrow> objectId \<Rightarrow> sizeOption list \<Rightarrow> (error + int) \<times> (objectId \<rightharpoonup> product)" where
  "admin_update_stock db pid sizes =
     (case db pid of
        None \<Rightarrow> (Inl ProductNotFound, db)
      | Some p \<Rightarrow>
         (case product_save False (p\<lparr>p_sizes := sizes\<rparr>) of
            Inl e \<Rightarrow> (Inl (ServerError ''Failed to update stock''), db)
          | Inr saved \<Rightarrow> (Inr (p_totalStock saved), db(pid \<mapsto> saved))))"

subsection \<open>Orders (models/index.js)\<close>

record orderItem =
  oi_product :: objectId
  oi_name :: string
  oi_price :: rat
  oi_size :: rat
  oi_color :: string
  oi_quantity :: int
  oi_image :: string

record address =
  a_firstName :: string
  a_lastName :: string
  a_street :: string
  a_city :: string
  a_state :: string
  a_zipCode :: string
  a_country :: string
  a_phone :: string

text \<open>
  The schema's \<^verbatim>\<open>billingAddress\<close> has no \<^verbatim>\<open>phone\<close> path: a phone number handed to it
  is not stored.
\<close>

record billingAddress =
  b_firstName :: string
  b_lastName :: string
  b_street :: string
  b_city :: string
  b_state :: string
  b_zipCode :: string
  b_country :: string

definition billing_of :: "address \<Rightarrow> billingAddress" where
  "billing_of a =
     \<lparr>b_firstName = a_firstName a, b_lastName = a_lastName a, b_street = a_street a,
      b_city = a_city a, b_state = a_state a, b_zipCode = a_zipCode a, b_country = a_country a\<rparr>"

datatype orderStatus = Pending | Confirmed | Processing | Shipped | Delivered | Cancelled | Refunded

record historyEntry =
  h_status :: orderStatus
  h_timestamp :: nat
  h_note :: string

record order =
  o_id :: objectId
  o_orderNumber :: string
  o_user :: objectId
  o_items :: "orderItem list"
  o_shippingAddress :: address
  o_billingAddress :: billingAddress
  o_paymentMethod :: string
  o_paymentStatus :: string
  o_subtotal :: rat
  o_shippingMethod :: string
  o_shippingCost :: rat
  o_tax :: rat
  o_total :: rat
  o_status :: orderStatus
  o_statusHistory :: "historyEntry list"

text \<open>
  What a request reads from outside the stores: the clock (\<^verbatim>\<open>getFullYear()\<close>,
  \<^verbatim>\<open>getMonth()\<close>, which counts from 0, and \<^verbatim>\<open>Date.now\<close>) and the id the driver gives a
  new document.
\<close>

record env =
  e_year :: nat
  e_month :: nat
  e_now :: nat
  e_newId :: objectId

text \<open>\<^verbatim>\<open>String(n)\<close> of a natural number, and \<^verbatim>\<open>s.padStart(n, c)\<close> for a one-character pad.\<close>

definition digit_char :: "nat \<Rightarrow> char" where
  "digit_char d = ''0123456789'' ! d"

fun String_nat :: "nat \<Rightarrow> string" where
  "String_nat n = (if n < 10 then [digit_char n] else String_nat (n div 10) @ [digit_char (n mod 10)])"

declare String_nat.simps [simp del]

definition padStart :: "nat \<Rightarrow> char \<Rightarrow> string \<Rightarrow> string" where
  "padStart n c s = replicate (n - length s) c @ s"

text \<open>
  \<^verbatim>\<open>orderSchema.pre('save')\<close>: an order without a number gets one from the clock and the
  number of documents in the collection.
\<close>

definition order_number :: "env \<Rightarrow> nat \<Rightarrow> string" where
  "order_number e count =
     ''ORD'' @ String_nat (e_year e) @ padStart 2 (CHR ''0'') (String_nat (e_month e + 1))
       @ padStart 6 (CHR ''0'') (String_nat (count + 1))"

definition order_pre_save :: "env \<Rightarrow> order list \<Rightarrow> order \<Rightarrow> order" where
  "order_pre_save e orders ord =
     (if o_orderNumber ord = [] then ord\<lparr>o_orderNumber := order_number e (length orders)\<rparr>
      else ord)"

text \<open>
  The validators of the order schema that a typed document can fail: every item's
  \<^verbatim>\<open>quantity: { min: 1 }\<close> and the \<^verbatim>\<open>enum\<close>s of \<^verbatim>\<open>payment.method\<close> and
  \<^verbatim>\<open>payment.status\<close>. (The \<^verbatim>\<open>enum\<close> of \<^verbatim>\<open>status\<close> is the type \<open>orderStatus\<close>.)
\<close>

definition order_valid :: "order \<Rightarrow> bool" where
  "order_valid ord \<longleftrightarrow>
     list_all (\<lambda>it. 1 \<le> oi_quantity it) (o_items ord) \<and>
     o_paymentMethod ord \<in> set [''card'', ''paypal'', ''cod''] \<and>
     o_paymentStatus ord \<in> set [''pending'', ''completed'', ''failed'', ''refunded'']"

text \<open>\<^verbatim>\<open>order.save()\<close>: validation of the document, then the hook.\<close>

definition order_save :: "env \<Rightarrow> order list \<Rightarrow> order \<Rightarrow> error + order" where
  "order_save e orders ord =
     (if order_valid ord then Inr (order_pre_save e orders ord) else Inl ValidationError)"

text \<open>\<^verbatim>\<open>Order.create(doc)\<close>: the save of a new document, then the insert.\<close>

definition Order_create :: "env \<Rightarrow> order list \<Rightarrow> order \<Rightarrow> error + order \<times> order list" where
  "Order_create e orders doc =
     (case order_save e orders doc of
        Inl err \<Rightarrow> Inl err
      | Inr saved \<Rightarrow> Inr (saved, orders @ [saved]))"

subsection \<open>Checkout (POST /api/orders)\<close>

record store =
  products :: "objectId \<rightharpoonup> product"
  orders :: "order list"

record session =
  sess_user :: "objectId option"
  sess_cart :: "cart option"

record checkoutRequest =
  cr_shippingAddress :: address
  cr_billingAddress :: "address option"
  cr_paymentMethod :: "string option"
  cr_shippingMethod :: "string option"

definition order_line :: "product \<Rightarrow> cartItem \<Rightarrow> orderItem" where
  "order_line p item =
     \<lparr>oi_product = ci_productId item, oi_name = p_name p, oi_price = ci_price item,
      oi_size = ci_size item, oi_color = ci_color item, oi_quantity = ci_quantity item,
      oi_image = ci_image item\<rparr>"

text \<open>The stock of line \<open>item\<close> taken from bucket \<open>i\<close> of its product, before the save.\<close>

definition reduce_stock :: "nat \<Rightarrow> cartItem \<Rightarrow> product \<Rightarrow> product" where
  "reduce_stock i item p =
     p\<lparr>p_sizes := (p_sizes p)[i := (p_sizes p ! i)\<lparr>s_stock := s_stock (p_sizes p ! i) - ci_quantity item\<rparr>],
       p_soldCount := p_soldCount p + ci_quantity item\<rparr>"

text \<open>
  The loop \<^verbatim>\<open>for (const item of cart.items)\<close>: each line is validated against the
  collection as the earlier lines have left it, and its product is saved before the next
  line is looked at. An early \<^verbatim>\<open>return\<close> leaves the collection as it is at that point.
  A save that throws is answered by the handler's \<^verbatim>\<open>catch\<close>.
\<close>

fun process_lines ::
  "(objectId \<rightharpoonup> product) \<Rightarrow> cartItem list \<Rightarrow> orderItem list
     \<Rightarrow> (error + orderItem list) \<times> (objectId \<rightharpoonup> product)" where
  "process_lines db [] orderItems = (Inr orderItems, db)"
| "process_lines db (item # rest) orderItems =
     (case db (ci_productId item) of
        None \<Rightarrow> (Inl (ProductGone (ci_name item)), db)
      | Some p \<Rightarrow>
         (case findIndex (\<lambda>s. s_size s = ci_size item) (p_sizes p) of
            None \<Rightarrow> (Inl (NoLongerAvailable (ci_name item) (ci_size item)), db)
          | Some i \<Rightarrow>
              if s_stock (p_sizes p ! i) < ci_quantity item
              then (Inl (NoLongerAvailable (ci_name item) (ci_size item)), db)
              else
                (case product_save False (reduce_stock i item p) of
                   Inl e \<Rightarrow> (Inl (ServerError ''Failed to place order''), db)
                 | Inr saved \<Rightarrow>
                     process_lines (db(ci_productId item \<mapsto> saved)) rest
                       (orderItems @ [order_line saved item]))))"

definition shipping_cost :: "string option \<Rightarrow> rat \<Rightarrow> rat" where
  "shipping_cost shippingMethod sub =
     (if shippingMethod = Some ''express'' then 1999 / 100
      else if shippingMethod = Some ''overnight'' then 2999 / 100
      else if sub \<ge> 100 then 0 else 999 / 100)"

text \<open>\<^verbatim>\<open>x || d\<close> on an optional string: the default replaces \<^verbatim>\<open>undefined\<close> and \<^verbatim>\<open>''\<close>.\<close>

definition or_default :: "string option \<Rightarrow> string \<Rightarrow> string" where
  "or_default x d = (case x of None \<Rightarrow> d | Some s \<Rightarrow> if s = [] then d else s)"

text \<open>
  The document handed to \<^verbatim>\<open>Order.create\<close>. A payment method that is \<^verbatim>\<open>undefined\<close> takes
  the schema's default \<^verbatim>\<open>'card'\<close>; the order number is not set, so the hook sets it.
\<close>

definition order_doc ::
  "env \<Rightarrow> objectId \<Rightarrow> cart \<Rightarrow> orderItem list \<Rightarrow> checkoutRequest \<Rightarrow> order" where
  "order_doc e uid c orderItems r =
     (let shippingCost = shipping_cost (cr_shippingMethod r) (subtotal c) in
      \<lparr>o_id = e_newId e, o_orderNumber = [], o_user = uid, o_items = orderItems,
       o_shippingAddress = cr_shippingAddress r,
       o_billingAddress =
         billing_of (case cr_billingAddress r of None \<Rightarrow> cr_shippingAddress r | Some b \<Rightarrow> b),
       o_paymentMethod = (case cr_paymentMethod r of None \<Rightarrow> ''card'' | Some m \<Rightarrow> m),
       o_paymentStatus = ''pending'',
       o_subtotal = subtotal c,
       o_shippingMethod = or_default (cr_shippingMethod r) ''standard'',
       o_shippingCost = shippingCost,
       o_tax = tax c,
       o_total = subtotal c + shippingCost + tax c,
       o_status = Confirmed,
       o_statusHistory =
         [\<lparr>h_status = Confirmed, h_timestamp = e_now e, h_note = ''Order placed successfully''\<rparr>]\<rparr>)"

text \<open>
  The handler behind \<^verbatim>\<open>isAuthenticated\<close>. The success payload is the new order's id and
  number. Whatever the loop has saved stays in the store when the request fails later.
\<close>

definition checkout ::
  "env \<Rightarrow> store \<Rightarrow> session \<Rightarrow> checkoutRequest
     \<Rightarrow> (error + objectId \<times> string) \<times> store \<times> session" where
  "checkout e st sess r =
     (case sess_user sess of
        None \<Rightarrow> (Inl LoginRequired, st, sess)
      | Some uid \<Rightarrow>
         (case sess_cart sess of
            None \<Rightarrow> (Inl CartEmpty, st, sess)
          | Some c \<Rightarrow>
              if items c = [] then (Inl CartEmpty, st, sess)
              else
                (case process_lines (products st) (items c) [] of
                   (Inl err, db) \<Rightarrow> (Inl err, st\<lparr>products := db\<rparr>, sess)
                 | (Inr orderItems, db) \<Rightarrow>
                    (case Order_create e (orders st) (order_doc e uid c orderItems r) of
                       Inl err \<Rightarrow> (Inl (ServerError ''Failed to place order''), st\<lparr>products := db\<rparr>, sess)
                     | Inr (ord, orders') \<Rightarrow>
                         (Inr (o_id ord, o_orderNumber ord),
                          \<lparr>products = db, orders = orders'\<rparr>,
                          sess\<lparr>sess_cart := Some emptyCart\<rparr>)))))"

subsection \<open>Cancellation (POST /api/orders/:id/cancel)\<close>

text \<open>
  \<^verbatim>\<open>Product.findByIdAndUpdate(item.product, { $inc: { 'sizes.$[elem].stock': item.quantity,
  soldCount: -item.quantity } }, { arrayFilters: [{ 'elem.size': item.size }] })\<close>:
  the update is applied in the database, to every bucket the filter matches, and runs
  no save hook. A product that is gone is left alone.
\<close>

definition inc_stock :: "orderItem \<Rightarrow> product \<Rightarrow> product" where
  "inc_stock item p =
     p\<lparr>p_sizes := map (\<lambda>s. if s_size s = oi_size item
                             then s\<lparr>s_stock := s_stock s + oi_quantity item\<rparr> else s) (p_sizes p),
       p_soldCount := p_soldCount p - oi_quantity item\<rparr>"

fun restore_stock :: "(objectId \<rightharpoonup> product) \<Rightarrow> orderItem list \<Rightarrow> (objectId \<rightharpoonup> product)" where
  "restore_stock db [] = db"
| "restore_stock db (item # rest) =
     restore_stock
       (case db (oi_product item) of
          None \<Rightarrow> db
        | Some p \<Rightarrow> db(oi_product item \<mapsto> inc_stock item p))
       rest"

text \<open>
  The handler behind \<^verbatim>\<open>isAuthenticated\<close>. The stock is given back before the order is
  saved; a save that throws is answered by the handler's \<^verbatim>\<open>catch\<close> and leaves the
  stock as given back.
\<close>

definition cancel_order ::
  "env \<Rightarrow> store \<Rightarrow> session \<Rightarrow> objectId \<Rightarrow> (error + unit) \<times> store" where
  "cancel_order e st sess oid =
     (case sess_user sess of
        None \<Rightarrow> (Inl LoginRequired, st)
      | Some uid \<Rightarrow>
         (case findIndex (\<lambda>ord. o_id ord = oid \<and> o_user ord = uid) (orders st) of
            None \<Rightarrow> (Inl OrderNotFound, st)
          | Some k \<Rightarrow>
              let ord = orders st ! k in
              if o_status ord \<notin> set [Pending, Confirmed] then (Inl CannotCancel, st)
              else
                let db = restore_stock (products st) (o_items ord);
                    cancelled = ord\<lparr>o_status := Cancelled,
                      o_statusHistory := o_statusHistory ord @
                        [\<lparr>h_status = Cancelled, h_timestamp = e_now e,
                          h_note = ''Cancelled by customer''\<rparr>]\<rparr>
                in (case order_save e (orders st) cancelled of
                      Inl err \<Rightarrow> (Inl (ServerError ''Failed to cancel order''), st\<lparr>products := db\<rparr>)
                    | Inr saved \<Rightarrow>
                        (Inr (), \<lparr>products = db, orders = (orders st)[k := saved]\<rparr>))))"

section \<open>Notions of the specification\<close>

subsection \<open>Cart totals\<close>

text \<open>The sum of price times quantity over the lines, as the specification writes it.\<close>

definition line_sum :: "cartItem list \<Rightarrow> rat" where
  "line_sum xs = (\<Sum>item\<leftarrow>xs. ci_price item * of_int (ci_quantity item))"

definition sums_ok :: "cart \<Rightarrow> bool" where
  "sums_ok c \<longleftrightarrow>
     subtotal c = line_sum (items c) \<and> tax c = subtotal c * (8 / 100) \<and>
     total c = subtotal c + shipping c + tax c"

definition shipping_ok :: "cart \<Rightarrow> bool" where
  "shipping_ok c \<longleftrightarrow> shipping c = (if subtotal c \<ge> 100 then 0 else 999 / 100)"

definition set_quantity :: "nat \<Rightarrow> int \<Rightarrow> cartItem list \<Rightarrow> cartItem list" where
  "set_quantity i q xs = xs[i := (xs ! i)\<lparr>ci_quantity := q\<rparr>]"

subsection \<open>Stock and sales as the claims speak of them\<close>

text \<open>
  The stock of the bucket that checkout reads for a product and size (the first bucket of
  that size), and the product's sold count; \<open>None\<close> when there is no such bucket or
  product.
\<close>

definition bucket_stock :: "(objectId \<rightharpoonup> product) \<Rightarrow> objectId \<Rightarrow> rat \<Rightarrow> int option" where
  "bucket_stock db pid sz =
     (case db pid of
        None \<Rightarrow> None
      | Some p \<Rightarrow> map_option s_stock (find (\<lambda>s. s_size s = sz) (p_sizes p)))"

definition sold_count :: "(objectId \<rightharpoonup> product) \<Rightarrow> objectId \<Rightarrow> int option" where
  "sold_count db pid = map_option p_soldCount (db pid)"

text \<open>
  What a list of cart lines asks of one bucket, and of one product over all its sizes.
\<close>

definition demand :: "cartItem list \<Rightarrow> objectId \<Rightarrow> rat \<Rightarrow> int" where
  "demand ls pid sz =
     sum_list (map ci_quantity (filter (\<lambda>item. ci_productId item = pid \<and> ci_size item = sz) ls))"

definition sold :: "cartItem list \<Rightarrow> objectId \<Rightarrow> int" where
  "sold ls pid = sum_list (map ci_quantity (filter (\<lambda>item. ci_productId item = pid) ls))"

text \<open>The line's product exists and its bucket holds at least the line's quantity.\<close>

definition line_in_stock :: "(objectId \<rightharpoonup> product) \<Rightarrow> cartItem \<Rightarrow> bool" where
  "line_in_stock db item =
     (case bucket_stock db (ci_productId item) (ci_size item) of
        None \<Rightarrow> False
      | Some n \<Rightarrow> ci_quantity item \<le> n)"


text \<open>The product as one pass of the checkout loop saves it.\<close>

definition line_saved :: "nat \<Rightarrow> cartItem \<Rightarrow> product \<Rightarrow> product" where
  "line_saved i item p = product_pre_save False (reduce_stock i item p)"




subsection \<open>Order numbers\<close>

text \<open>The number a string of decimal digits denotes, and the test for a decimal digit.\<close>

definition digits_value :: "string \<Rightarrow> nat" where
  "digits_value s = foldl (\<lambda>acc c. 10 * acc + ((of_char c :: nat) - 48)) 0 s"

definition is_digit :: "char \<Rightarrow> bool" where
  "is_digit c \<longleftrightarrow> 48 \<le> (of_char c :: nat) \<and> (of_char c :: nat) \<le> 57"

subsection \<open>Cancellation and the stock total\<close>

text \<open>
  What the lines of an order give back to the buckets of one size of a product, and to the
  product's sold count.
\<close>

definition odemand :: "orderItem list \<Rightarrow> objectId \<Rightarrow> rat \<Rightarrow> int" where
  "odemand ois pid sz =
     sum_list (map oi_quantity (filter (\<lambda>item. oi_product item = pid \<and> oi_size item = sz) ois))"

definition osold :: "orderItem list \<Rightarrow> objectId \<Rightarrow> int" where
  "osold ois pid = sum_list (map oi_quantity (filter (\<lambda>item. oi_product item = pid) ois))"

text \<open>
  A product after the lines of an order have been given back: every bucket whose size a
  line names gains that line's quantity, the sold count loses it; nothing else changes.
\<close>

definition restored :: "orderItem list \<Rightarrow> objectId \<Rightarrow> product \<Rightarrow> product" where
  "restored ois pid p =
     p\<lparr>p_sizes := map (\<lambda>s. s\<lparr>s_stock := s_stock s + odemand ois pid (s_size s)\<rparr>) (p_sizes p),
       p_soldCount := p_soldCount p - osold ois pid\<rparr>"

text \<open>The statuses from which the customer may cancel.\<close>

definition cancellable :: "orderStatus \<Rightarrow> bool" where
  "cancellable s \<longleftrightarrow> s = Pending \<or> s = Confirmed"

text \<open>The invariant of the product document: the total is the sum over the buckets.\<close>

definition stock_total_ok :: "product \<Rightarrow> bool" where
  "stock_total_ok p \<longleftrightarrow> p_totalStock p = sum_list (map s_stock (p_sizes p))"

text \<open>No product of the collection lists a size twice.\<close>

definition sizes_distinct :: "(objectId \<rightharpoonup> product) \<Rightarrow> bool" where
  "sizes_distinct db \<longleftrightarrow> (\<forall>pid p. db pid = Some p \<longrightarrow> distinct (map s_size (p_sizes p)))"

text \<open>The size buckets after checkout has taken \<open>ls\<close> from a product with distinct sizes.\<close>

definition taken :: "cartItem list \<Rightarrow> objectId \<Rightarrow> sizeOption list \<Rightarrow> sizeOption list" where
  "taken ls pid sizes = map (\<lambda>s. s\<lparr>s_stock := s_stock s - demand ls pid (s_size s)\<rparr>) sizes"

subsection \<open>Example data\<close>

definition demo_product :: product where
  "demo_product =
     \<lparr>p_name = ''Runner'', p_slug = ''runner'', p_description = ''A road running shoe'',
      p_shortDescription = None, p_brand = ''Nike'', p_category = ''Running'',
      p_gender = ''Unisex'', p_price = 40, p_salePrice = None,
      p_sizes = [\<lparr>s_size = 9, s_stock = 5\<rparr>, \<lparr>s_size = 10, s_stock = 2\<rparr>],
      p_images = [], p_ratingAverage = 0, p_reviews = [], p_totalStock = 7, p_soldCount = 0\<rparr>"

definition demo_db :: "objectId \<rightharpoonup> product" where
  "demo_db = [''a1'' \<mapsto> demo_product]"

text \<open>A cart line for size 9 of the example product, as add-to-cart builds it.\<close>

definition demo_line :: "string \<Rightarrow> int \<Rightarrow> cartItem" where
  "demo_line colour q =
     \<lparr>ci_productId = ''a1'', ci_name = ''Runner'', ci_brand = ''Nike'', ci_price = 40,
      ci_originalPrice = 40, ci_size = 9, ci_color = colour, ci_quantity = q,
      ci_image = ''/images/placeholder.jpg'', ci_slug = ''runner'', ci_maxStock = 5\<rparr>"

definition demo_cart :: "cartItem list \<Rightarrow> cart" where
  "demo_cart ls = calculateTotals (emptyCart\<lparr>items := ls\<rparr>)"

definition demo_add :: "int \<Rightarrow> addRequest" where
  "demo_add q = \<lparr>ar_productId = ''a1'', ar_size = 9, ar_color = Some ''Red'', ar_quantity = Some q\<rparr>"

definition demo_update :: "int \<Rightarrow> updateRequest" where
  "demo_update q = \<lparr>ur_productId = ''a1'', ur_size = 9, ur_quantity = q\<rparr>"

text \<open>The request of three pairs of size 9 that names no colour.\<close>

definition colourless_add :: addRequest where
  "colourless_add = \<lparr>ar_productId = ''a1'', ar_size = 9, ar_color = None, ar_quantity = Some 3\<rparr>"

text \<open>The example product after an admin has taken size 9 off its size list.\<close>

definition gone_size_db :: "objectId \<rightharpoonup> product" where
  "gone_size_db = [''a1'' \<mapsto> demo_product\<lparr>p_sizes := [\<lparr>s_size = 10, s_stock = 2\<rparr>], p_totalStock := 2\<rparr>]"

subsection \<open>Example data for checkout\<close>

definition demo_address :: address where
  "demo_address =
     \<lparr>a_firstName = ''Ada'', a_lastName = ''Byron'', a_street = ''1 Main St'', a_city = ''Springfield'',
      a_state = ''IL'', a_zipCode = ''62701'', a_country = ''USA'', a_phone = ''555-0100''\<rparr>"

definition demo_request :: checkoutRequest where
  "demo_request =
     \<lparr>cr_shippingAddress = demo_address, cr_billingAddress = None,
      cr_paymentMethod = Some ''card'', cr_shippingMethod = None\<rparr>"

definition demo_env :: env where
  "demo_env = \<lparr>e_year = 2024, e_month = 2, e_now = 1709251200000, e_newId = ''o1''\<rparr>"

definition demo_store :: store where
  "demo_store = \<lparr>products = demo_db, orders = []\<rparr>"

definition demo_session :: "cartItem list \<Rightarrow> session" where
  "demo_session ls = \<lparr>sess_user = Some ''u1'', sess_cart = Some (demo_cart ls)\<rparr>"

text \<open>
  The order the example checkout of three pairs creates, the product it leaves behind, the
  session afterwards, and the order once cancelled.
\<close>

definition demo_order :: order where
  "demo_order =
     \<lparr>o_id = ''o1'', o_orderNumber = ''ORD202403000001'', o_user = ''u1'',
      o_items = [\<lparr>oi_product = ''a1'', oi_name = ''Runner'', oi_price = 40, oi_size = 9,
                  oi_color = ''Red'', oi_quantity = 3, oi_image = ''/images/placeholder.jpg''\<rparr>],
      o_shippingAddress = demo_address, o_billingAddress = billing_of demo_address,
      o_paymentMethod = ''card'', o_paymentStatus = ''pending'',
      o_subtotal = 120, o_shippingMethod = ''standard'', o_shippingCost = 0,
      o_tax = 48 / 5, o_total = 648 / 5, o_status = Confirmed,
      o_statusHistory = [\<lparr>h_status = Confirmed, h_timestamp = 1709251200000,
                           h_note = ''Order placed successfully''\<rparr>]\<rparr>"

definition sold_product :: product where
  "sold_product = demo_product
     \<lparr>p_sizes := [\<lparr>s_size = 9, s_stock = 2\<rparr>, \<lparr>s_size = 10, s_stock = 2\<rparr>],
      p_totalStock := 4, p_soldCount := 3\<rparr>"

definition after_checkout :: session where
  "after_checkout = \<lparr>sess_user = Some ''u1'', sess_cart = Some emptyCart\<rparr>"

definition cancelled_order :: order where
  "cancelled_order = demo_order
     \<lparr>o_status := Cancelled,
      o_statusHistory := o_statusHistory demo_order @
        [\<lparr>h_status = Cancelled, h_timestamp = 1709251200000, h_note = ''Cancelled by customer''\<rparr>]\<rparr>"

text \<open>A product whose size list names size 9 twice.\<close>

definition dup_product :: product where
  "dup_product = demo_product\<lparr>p_sizes := [\<lparr>s_size = 9, s_stock = 5\<rparr>, \<lparr>s_size = 9, s_stock = 7\<rparr>],
                              p_totalStock := 12\<rparr>"

definition dup_store :: store where
  "dup_store = \<lparr>products = [''a1'' \<mapsto> dup_product], orders = []\<rparr>"

section \<open>Properties\<close>

subsection \<open>Array helpers\<close>

lemma findIndex_SomeD:
  "findIndex P xs = Some i \<Longrightarrow> i < length xs \<and> P (xs ! i) \<and> (\<forall>j<i. \<not> P (xs ! j))"
proof (induction xs arbitrary: i)
  case Nil
  then show ?case by simp
next
  case (Cons x xs)
  show ?case
  proof (cases "P x")
    case True
    with Cons.prems show ?thesis by simp
  next
    case False
    with Cons.prems obtain k where k: "findIndex P xs = Some k" "i = Suc k"
      by auto
    from Cons.IH [OF k(1)] False k(2) show ?thesis
      by (auto simp: nth_Cons split: nat.splits)
  qed
qed

lemma findIndex_None_iff: "findIndex P xs = None \<longleftrightarrow> (\<forall>x\<in>set xs. \<not> P x)"
  by (induction xs) auto

lemma findIndex_first:
  "i < length xs \<Longrightarrow> P (xs ! i) \<Longrightarrow> \<exists>k\<le>i. findIndex P xs = Some k"
proof (cases "findIndex P xs")
  case None
  assume "i < length xs" "P (xs ! i)"
  with None show ?thesis
    by (auto simp: findIndex_None_iff)
next
  case (Some k)
  assume "i < length xs" "P (xs ! i)"
  with findIndex_SomeD [OF Some] have "k \<le> i"
    by (meson not_le_imp_less)
  with Some show ?thesis by blast
qed

lemma findIndex_Some_iff:
  "findIndex P xs = Some i \<longleftrightarrow> i < length xs \<and> P (xs ! i) \<and> (\<forall>j<i. \<not> P (xs ! j))"
proof
  assume "findIndex P xs = Some i"
  then show "i < length xs \<and> P (xs ! i) \<and> (\<forall>j<i. \<not> P (xs ! j))"
    by (rule findIndex_SomeD)
next
  assume r: "i < length xs \<and> P (xs ! i) \<and> (\<forall>j<i. \<not> P (xs ! j))"
  then obtain k where k: "k \<le> i" "findIndex P xs = Some k"
    using findIndex_first [of i xs P] by blast
  from findIndex_SomeD [OF k(2)] r k(1) have "k = i"
    by (cases "k = i") auto
  with k(2) show "findIndex P xs = Some i"
    by simp
qed


lemma splice1_nth_before:
  "m < k \<Longrightarrow> k < length xs \<Longrightarrow> splice1 k xs ! m = xs ! m"
  by (simp add: splice1_def nth_append)

subsection \<open>Cart totals\<close>

lemma foldl_plus_sum_list:
  "foldl (\<lambda>sum item. sum + f item) a xs = a + sum_list (map f xs)"
  for a :: rat
  by (induction xs arbitrary: a) (simp_all add: add.assoc)

lemma calculateTotals_items [simp]: "items (calculateTotals c) = items c"
  by (simp add: calculateTotals_def Let_def)

lemma calculateTotals_sums_ok: "sums_ok (calculateTotals c)"
  by (simp add: sums_ok_def calculateTotals_def Let_def line_sum_def foldl_plus_sum_list)

lemma calculateTotals_shipping_ok: "shipping_ok (calculateTotals c)"
  by (simp add: shipping_ok_def calculateTotals_def Let_def)

lemma cart_add_Inr:
  "cart_add db sc r = (Inr c, sc') \<Longrightarrow> \<exists>c0. c = calculateTotals c0 \<and> sc' = Some c"
  by (auto simp: cart_add_def Let_def split: option.splits if_splits)

lemma cart_update_Inr:
  "cart_update db sc r = (Inr c, sc') \<Longrightarrow> \<exists>c0. c = calculateTotals c0 \<and> sc' = Some c"
  by (auto simp: cart_update_def Let_def split: option.splits if_splits)

lemma cart_remove_Inr:
  "cart_remove sc pid sz = (Inr c, sc') \<Longrightarrow> \<exists>c0. c = calculateTotals c0 \<and> sc' = Some c"
  by (auto simp: cart_remove_def Let_def split: option.splits if_splits)

text \<open>
  Claim C5, as amended. After every successful add, update and remove the session holds
  the returned cart, and its totals satisfy: subtotal = sum of price times quantity over
  the items, shipping = 0 if subtotal \<ge> 100 and 9.99 otherwise, tax = subtotal times 0.08,
  total = subtotal + shipping + tax. After clear the cart has no items and the equations
  for subtotal, tax and total hold, but shipping is 0 (not 9.99).
\<close>

theorem cart_totals_after_mutation:
  "(cart_add db sc ar = (Inr c, sc') \<or> cart_update db sc ur = (Inr c, sc') \<or>
    cart_remove sc pid sz = (Inr c, sc')
      \<longrightarrow> sc' = Some c \<and> sums_ok c \<and> shipping_ok c) \<and>
   (cart_clear sc = (Inr c, sc')
      \<longrightarrow> sc' = Some c \<and> items c = [] \<and> sums_ok c \<and> shipping c = 0)"
proof -
  have "sc' = Some c \<and> sums_ok c \<and> shipping_ok c"
    if "\<exists>c0. c = calculateTotals c0 \<and> sc' = Some c"
    using that calculateTotals_sums_ok calculateTotals_shipping_ok by auto
  moreover have "sc' = Some c \<and> items c = [] \<and> sums_ok c \<and> shipping c = 0"
    if "cart_clear sc = (Inr c, sc')"
    using that by (auto simp: cart_clear_def emptyCart_def sums_ok_def line_sum_def)
  ultimately show ?thesis
    using cart_add_Inr cart_update_Inr cart_remove_Inr by blast
qed

theorem cart_totals_after_mutation_witness:
  "cart_add demo_db None (demo_add 3)
     = (Inr (demo_cart [demo_line ''Red'' 3]), Some (demo_cart [demo_line ''Red'' 3])) \<and>
   sums_ok (demo_cart [demo_line ''Red'' 3]) \<and> shipping_ok (demo_cart [demo_line ''Red'' 3]) \<and>
   subtotal (demo_cart [demo_line ''Red'' 3]) = 120 \<and>
   shipping (demo_cart [demo_line ''Red'' 3]) = 0 \<and>
   total (demo_cart [demo_line ''Red'' 3]) = 648 / 5 \<and>
   cart_clear (Some (demo_cart [demo_line ''Red'' 3])) = (Inr emptyCart, Some emptyCart) \<and>
   sums_ok emptyCart \<and> shipping emptyCart = 0"
proof -
  have add: "cart_add demo_db None (demo_add 3)
     = (Inr (demo_cart [demo_line ''Red'' 3]), Some (demo_cart [demo_line ''Red'' 3]))"
    by (simp add: cart_add_def requested_def demo_db_def demo_add_def demo_product_def
        demo_cart_def demo_line_def new_line_def effectivePrice_def primaryImage_def
        initCart_def emptyCart_def calculateTotals_def add_matches_def Let_def)
  have clear: "cart_clear (Some (demo_cart [demo_line ''Red'' 3])) = (Inr emptyCart, Some emptyCart)"
    by (simp add: cart_clear_def)
  have vals: "subtotal (demo_cart [demo_line ''Red'' 3]) = 120"
    "shipping (demo_cart [demo_line ''Red'' 3]) = 0"
    "total (demo_cart [demo_line ''Red'' 3]) = 648 / 5"
    by (simp_all add: demo_cart_def demo_line_def calculateTotals_def emptyCart_def Let_def)
  from cart_totals_after_mutation [of demo_db None "demo_add 3" "demo_cart [demo_line ''Red'' 3]"
      "Some (demo_cart [demo_line ''Red'' 3])"] add
  have "sums_ok (demo_cart [demo_line ''Red'' 3]) \<and> shipping_ok (demo_cart [demo_line ''Red'' 3])"
    by simp
  moreover from cart_totals_after_mutation [of _ "Some (demo_cart [demo_line ''Red'' 3])" _
      emptyCart "Some emptyCart"] clear
  have "sums_ok emptyCart \<and> shipping emptyCart = 0"
    by simp
  ultimately show ?thesis
    using add clear vals by simp
qed

text \<open>
  The claim as stated fails after clear: the cart stored there has subtotal 0, which is
  below 100, and shipping 0.
\<close>

theorem clear_shipping_counterexample:
  "\<not> (\<forall>sc c sc'. cart_clear sc = (Inr c, sc') \<longrightarrow> sums_ok c \<and> shipping_ok c)"
proof
  assume "\<forall>sc c sc'. cart_clear sc = (Inr c, sc') \<longrightarrow> sums_ok c \<and> shipping_ok c"
  then have "shipping_ok emptyCart"
    by (simp add: cart_clear_def)
  then show False
    by (simp add: shipping_ok_def emptyCart_def)
qed

subsection \<open>Add to cart\<close>

lemma initCart_nonempty: "items (initCart sc) \<noteq> [] \<Longrightarrow> Some (initCart sc) = sc"
  by (cases sc) (simp_all add: initCart_def emptyCart_def)

lemma initCart_index:
  "findIndex P (items (initCart sc)) = Some i \<Longrightarrow> Some (initCart sc) = sc"
  by (rule initCart_nonempty) auto

text \<open>
  What add-to-cart does, with the line it looks for written out: \<open>i\<close> is the first line
  whose product id and size are the request's and whose colour is the colour the request
  names. For a product that exists the add is refused for lack of stock exactly when the
  size is not on the product, or its stock is below the requested quantity, or such a line
  is in the cart and the stock is below that line's quantity plus the requested one; a
  refused add leaves the session's cart as it was; a successful add that finds such a line
  sets its quantity to the sum and adds no line.
\<close>

lemma cart_add_out_of_stock:
  assumes p: "db (ar_productId r) = Some p"
    and first: "\<And>i. first i \<longleftrightarrow>
        i < length (items (initCart sc)) \<and>
        (ci_productId (items (initCart sc) ! i) = ar_productId r \<and>
         ci_size (items (initCart sc) ! i) = ar_size r \<and>
         ar_color r = Some (ci_color (items (initCart sc) ! i))) \<and>
        (\<forall>j<i. \<not> (ci_productId (items (initCart sc) ! j) = ar_productId r \<and>
                  ci_size (items (initCart sc) ! j) = ar_size r \<and>
                  ar_color r = Some (ci_color (items (initCart sc) ! j))))"
  shows "((\<exists>e. fst (cart_add db sc r) = Inl e \<and> out_of_stock e) \<longleftrightarrow>
            (case find (\<lambda>s. s_size s = ar_size r) (p_sizes p) of
               None \<Rightarrow> True
             | Some so \<Rightarrow>
                 s_stock so < requested r \<or>
                 (\<exists>i. first i \<and> s_stock so < ci_quantity (items (initCart sc) ! i) + requested r))) \<and>
         ((\<exists>e. fst (cart_add db sc r) = Inl e) \<longrightarrow> snd (cart_add db sc r) = sc) \<and>
         (\<forall>i c'. first i \<and> fst (cart_add db sc r) = Inr c' \<longrightarrow>
                 snd (cart_add db sc r) = Some c' \<and>
                 items c' = set_quantity i (ci_quantity (items (initCart sc) ! i) + requested r)
                              (items (initCart sc)) \<and>
                 length (items c') = length (items (initCart sc))) \<and>
         (\<forall>c'. (\<forall>i. \<not> first i) \<and> fst (cart_add db sc r) = Inr c' \<longrightarrow>
                 length (items c') = Suc (length (items (initCart sc))))"
proof -
  have idx: "findIndex (add_matches r) (items (initCart sc)) = Some i \<longleftrightarrow> first i" for i
    unfolding first findIndex_Some_iff by (auto simp: add_matches_def)
  show ?thesis
  proof (cases "findIndex (add_matches r) (items (initCart sc))")
    case None
    with idx have "\<forall>i. \<not> first i"
      by (metis option.distinct(1))
    with None p show ?thesis
      by (auto simp: cart_add_def Let_def split: option.splits)
  next
    case (Some a)
    with idx have "\<forall>i. first i \<longleftrightarrow> i = a"
      by (metis option.inject)
    with Some p initCart_index [of "add_matches r" sc] show ?thesis
      by (auto simp: cart_add_def set_quantity_def Let_def split: option.splits)
  qed
qed

text \<open>
  Claim C6 fails on the code for a request that names no colour. The bucket holds 5. A
  first add of three pairs without a colour stores a line of colour \<open>Default\<close>. The same
  request again does not find that line (the stored \<open>Default\<close> is compared with the
  request's missing colour), so the cumulative check (6 > 5) is not made and a second
  \<open>Default\<close> line of three is added. The request that names the colour \<open>Default\<close> is
  refused, as the claim says.
\<close>

theorem cart_add_colourless_twice:
  "bucket_stock demo_db ''a1'' 9 = Some 5 \<and>
   cart_add demo_db None colourless_add =
     (Inr (demo_cart [demo_line ''Default'' 3]), Some (demo_cart [demo_line ''Default'' 3])) \<and>
   cart_add demo_db (Some (demo_cart [demo_line ''Default'' 3])) colourless_add =
     (Inr (demo_cart [demo_line ''Default'' 3, demo_line ''Default'' 3]),
      Some (demo_cart [demo_line ''Default'' 3, demo_line ''Default'' 3])) \<and>
   cart_add demo_db (Some (demo_cart [demo_line ''Default'' 3]))
       (colourless_add\<lparr>ar_color := Some ''Default''\<rparr>) =
     (Inl (OnlyAvailable 5), Some (demo_cart [demo_line ''Default'' 3]))"
  by (simp add: bucket_stock_def cart_add_def requested_def demo_db_def colourless_add_def
      demo_product_def demo_cart_def demo_line_def new_line_def effectivePrice_def
      primaryImage_def initCart_def emptyCart_def calculateTotals_def add_matches_def Let_def)

subsection \<open>Update and remove\<close>

text \<open>
  What update does on an existing line, \<open>i\<close> being the first line with the request's
  product id and size: a quantity \<le> 0 removes the line; a quantity > 0, when the product
  exists and has a bucket of that size, is compared with that bucket's current stock (the
  line's \<open>maxStock\<close> is not read) and is either refused, the cart staying as it was, or
  written to the line as given.
\<close>

lemma cart_update_existing_line:
  assumes i: "i < length (items c)"
    and line: "ci_productId (items c ! i) = ur_productId r" "ci_size (items c ! i) = ur_size r"
    and first: "\<forall>j<i. \<not> (ci_productId (items c ! j) = ur_productId r \<and>
                         ci_size (items c ! j) = ur_size r)"
  shows "(ur_quantity r \<le> 0 \<longrightarrow>
            cart_update db (Some c) r =
              (let c' = calculateTotals (c\<lparr>items := splice1 i (items c)\<rparr>) in (Inr c', Some c'))) \<and>
         (\<forall>p so. 0 < ur_quantity r \<and> db (ur_productId r) = Some p \<and>
                 find (\<lambda>s. s_size s = ur_size r) (p_sizes p) = Some so \<longrightarrow>
            (if s_stock so < ur_quantity r
             then cart_update db (Some c) r = (Inl (OnlyAvailable (s_stock so)), Some c) \<and>
                  out_of_stock (OnlyAvailable (s_stock so))
             else cart_update db (Some c) r =
                    (let c' = calculateTotals (c\<lparr>items := set_quantity i (ur_quantity r) (items c)\<rparr>)
                     in (Inr c', Some c')) \<and>
                  ci_quantity (set_quantity i (ur_quantity r) (items c) ! i) = ur_quantity r))"
proof -
  have "findIndex (line_matches (ur_productId r) (ur_size r)) (items c) = Some i"
    unfolding findIndex_Some_iff using i line first by (simp add: line_matches_def)
  with i show ?thesis
    by (auto simp: cart_update_def initCart_def Let_def set_quantity_def)
qed

text \<open>
  Claim C7 fails on the code when the line's product, or the product's bucket of the
  line's size, is gone. The cart holds one line of the example product in size 9. An
  update to quantity 2 is then neither refused for lack of stock nor written: the handler
  reads \<^verbatim>\<open>product.sizes\<close> of no product, or \<^verbatim>\<open>sizeOption.stock\<close> of no bucket, and its
  \<^verbatim>\<open>catch\<close> answers with status 500, the cart staying as it was. Add-to-cart guards
  both cases: it answers that the product is not found, and that the size is not
  available.
\<close>

theorem cart_update_missing_product:
  "items (demo_cart [demo_line ''Red'' 1]) = [demo_line ''Red'' 1] \<and>
   ci_productId (demo_line ''Red'' 1) = ur_productId (demo_update 2) \<and>
   ci_size (demo_line ''Red'' 1) = ur_size (demo_update 2) \<and>
   0 < ur_quantity (demo_update 2) \<and>
   cart_update Map.empty (Some (demo_cart [demo_line ''Red'' 1])) (demo_update 2)
     = (Inl (ServerError ''Failed to update cart''), Some (demo_cart [demo_line ''Red'' 1])) \<and>
   cart_update gone_size_db (Some (demo_cart [demo_line ''Red'' 1])) (demo_update 2)
     = (Inl (ServerError ''Failed to update cart''), Some (demo_cart [demo_line ''Red'' 1])) \<and>
   \<not> out_of_stock (ServerError ''Failed to update cart'') \<and>
   fst (cart_add Map.empty (Some (demo_cart [demo_line ''Red'' 1])) (demo_add 2)) = Inl ProductNotFound \<and>
   fst (cart_add gone_size_db (Some (demo_cart [demo_line ''Red'' 1])) (demo_add 2)) = Inl SizeNotAvailable"
  by (simp add: cart_update_def cart_add_def requested_def demo_update_def demo_add_def
      demo_cart_def demo_line_def line_matches_def gone_size_db_def demo_product_def
      emptyCart_def initCart_def calculateTotals_def Let_def)



subsection \<open>The checkout loop\<close>

lemma findIndex_find: "findIndex P xs = Some i \<Longrightarrow> find P xs = Some (xs ! i)"
  by (induction xs arbitrary: i) (auto split: if_splits)


lemma find_update_first:
  "findIndex P xs = Some i \<Longrightarrow> P y \<Longrightarrow> find P (xs[i := y]) = Some y"
  by (induction xs arbitrary: i) (auto split: if_splits)

lemma find_update_other:
  "i < length xs \<Longrightarrow> \<not> P (xs ! i) \<Longrightarrow> \<not> P y \<Longrightarrow> find P (xs[i := y]) = find P xs"
  by (induction xs arbitrary: i) (auto simp: nth_Cons split: nat.splits)

lemma product_pre_save_fields [simp]:
  "p_sizes (product_pre_save b p) = p_sizes p"
  "p_soldCount (product_pre_save b p) = p_soldCount p"
  "p_name (product_pre_save b p) = p_name p"
  by (simp_all add: product_pre_save_def Let_def)

lemma process_lines_Cons_Inr:
  assumes "process_lines db (item # rest) acc = (Inr acc', db')"
  obtains p i where "db (ci_productId item) = Some p"
    "findIndex (\<lambda>s. s_size s = ci_size item) (p_sizes p) = Some i"
    "ci_quantity item \<le> s_stock (p_sizes p ! i)"
    "process_lines (db(ci_productId item \<mapsto> line_saved i item p)) rest
       (acc @ [order_line (line_saved i item p) item]) = (Inr acc', db')"
  using assms
  by (auto simp: product_save_def line_saved_def split: option.splits if_splits sum.splits)



lemma bucket_stock_step:
  assumes p: "db (ci_productId item) = Some p"
    and i: "findIndex (\<lambda>s. s_size s = ci_size item) (p_sizes p) = Some i"
  shows "bucket_stock (db(ci_productId item \<mapsto> line_saved i item p)) pid sz =
           (if pid = ci_productId item \<and> sz = ci_size item
            then Some (s_stock (p_sizes p ! i) - ci_quantity item)
            else bucket_stock db pid sz)"
proof -
  from findIndex_SomeD [OF i] have il: "i < length (p_sizes p)" and sz: "s_size (p_sizes p ! i) = ci_size item"
    by auto
  show ?thesis
  proof (cases "pid = ci_productId item")
    case False
    then show ?thesis by (simp add: bucket_stock_def)
  next
    case True
    show ?thesis
    proof (cases "sz = ci_size item")
      case True
      with \<open>pid = ci_productId item\<close> i sz show ?thesis
        by (simp add: bucket_stock_def line_saved_def reduce_stock_def find_update_first)
    next
      case False
      with \<open>pid = ci_productId item\<close> p il sz show ?thesis
        by (simp add: bucket_stock_def line_saved_def reduce_stock_def find_update_other)
    qed
  qed
qed

lemma sold_count_step:
  assumes p: "db (ci_productId item) = Some p"
  shows "sold_count (db(ci_productId item \<mapsto> line_saved i item p)) pid =
           (if pid = ci_productId item then Some (p_soldCount p + ci_quantity item)
            else sold_count db pid)"
  by (simp add: sold_count_def line_saved_def reduce_stock_def)

lemma process_lines_effect:
  "process_lines db ls acc = (Inr acc', db') \<Longrightarrow>
     bucket_stock db' pid sz = map_option (\<lambda>n. n - demand ls pid sz) (bucket_stock db pid sz) \<and>
     sold_count db' pid = map_option (\<lambda>n. n + sold ls pid) (sold_count db pid)"
proof (induction ls arbitrary: db acc)
  case Nil
  then show ?case
    by (simp add: demand_def sold_def option.map_ident)
next
  case (Cons item rest)
  from Cons.prems obtain p i where p: "db (ci_productId item) = Some p"
    and i: "findIndex (\<lambda>s. s_size s = ci_size item) (p_sizes p) = Some i"
    and rest: "process_lines (db(ci_productId item \<mapsto> line_saved i item p)) rest
       (acc @ [order_line (line_saved i item p) item]) = (Inr acc', db')"
    by (rule process_lines_Cons_Inr)
  have b: "bucket_stock db (ci_productId item) (ci_size item) = Some (s_stock (p_sizes p ! i))"
    using p findIndex_find [OF i] by (simp add: bucket_stock_def)
  have s: "sold_count db (ci_productId item) = Some (p_soldCount p)"
    using p by (simp add: sold_count_def)
  let ?db1 = "db(ci_productId item \<mapsto> line_saved i item p)"
  have b1: "bucket_stock ?db1 pid sz =
      map_option (\<lambda>n. n - (if pid = ci_productId item \<and> sz = ci_size item then ci_quantity item else 0))
        (bucket_stock db pid sz)"
    unfolding bucket_stock_step [where db = db and item = item and p = p and i = i, OF p i]
    using b by (simp add: option.map_ident)
  have s1: "sold_count ?db1 pid =
      map_option (\<lambda>n. n + (if pid = ci_productId item then ci_quantity item else 0)) (sold_count db pid)"
    unfolding sold_count_step [where db = db and item = item and p = p and i = i, OF p]
    using s by (simp add: option.map_ident)
  have d: "demand (item # rest) pid sz =
      (if pid = ci_productId item \<and> sz = ci_size item then ci_quantity item else 0) + demand rest pid sz"
    "sold (item # rest) pid = (if pid = ci_productId item then ci_quantity item else 0) + sold rest pid"
    by (auto simp: demand_def sold_def)
  from Cons.IH [OF rest] show ?case
    unfolding b1 s1 d by (simp add: option.map_comp o_def algebra_simps)
qed










lemma process_lines_append:
  "process_lines db (pre @ ls) acc =
     (case process_lines db pre acc of
        (Inl err, d) \<Rightarrow> (Inl err, d)
      | (Inr a, d) \<Rightarrow> process_lines d ls a)"
  by (induction pre arbitrary: db acc) (auto split: option.splits sum.splits)

lemma process_lines_Cons_bad:
  assumes p: "db (ci_productId item) = Some p"
    and bad: "\<not> line_in_stock db item"
  shows "process_lines db (item # rest) acc =
           (Inl (NoLongerAvailable (ci_name item) (ci_size item)), db)"
proof (cases "findIndex (\<lambda>s. s_size s = ci_size item) (p_sizes p)")
  case None
  with p show ?thesis by simp
next
  case (Some i)
  from findIndex_find [OF Some] p bad have "s_stock (p_sizes p ! i) < ci_quantity item"
    by (simp add: line_in_stock_def bucket_stock_def)
  with p Some show ?thesis by simp
qed

text \<open>
  Claim C2. When the lines before some line of the cart all pass and that line's product
  exists but its bucket is missing or holds less than the line's quantity (as the earlier
  lines have left it), checkout fails with the error that names the item and its size, no
  order is created, the session is untouched, and the store keeps what the earlier lines
  wrote: every bucket is down by what those lines took from it and every sold count is up
  by the same, with no rollback.
\<close>

theorem checkout_fails_mid_loop:
  assumes user: "sess_user sess = Some uid"
    and cart: "sess_cart sess = Some c" "items c = pre @ item # rest"
    and pre: "process_lines (products st) pre [] = (Inr ois, db')"
    and p: "db' (ci_productId item) = Some p"
    and bad: "\<not> line_in_stock db' item"
  shows "checkout e st sess r =
           (Inl (NoLongerAvailable (ci_name item) (ci_size item)), st\<lparr>products := db'\<rparr>, sess) \<and>
         orders (st\<lparr>products := db'\<rparr>) = orders st \<and>
         (\<forall>pid sz. bucket_stock db' pid sz =
            map_option (\<lambda>n. n - demand pre pid sz) (bucket_stock (products st) pid sz)) \<and>
         (\<forall>pid. sold_count db' pid =
            map_option (\<lambda>n. n + sold pre pid) (sold_count (products st) pid))"
proof -
  have "process_lines (products st) (items c) [] =
      (Inl (NoLongerAvailable (ci_name item) (ci_size item)), db')"
    unfolding cart(2) process_lines_append pre
    using process_lines_Cons_bad [where db = db' and item = item and p = p, OF p bad]
    by simp
  with user cart have "checkout e st sess r =
      (Inl (NoLongerAvailable (ci_name item) (ci_size item)), st\<lparr>products := db'\<rparr>, sess)"
    by (simp add: checkout_def)
  with process_lines_effect [OF pre] show ?thesis
    by simp
qed

lemma demo_first_line:
  "process_lines demo_db [demo_line ''Red'' 3] [] =
     (Inr [order_line demo_product (demo_line ''Red'' 3)],
      [''a1'' \<mapsto> demo_product\<lparr>p_sizes := [\<lparr>s_size = 9, s_stock = 2\<rparr>, \<lparr>s_size = 10, s_stock = 2\<rparr>],
                  p_totalStock := 4, p_soldCount := 3\<rparr>])"
  by (simp add: demo_db_def demo_product_def demo_line_def product_save_def product_valid_def product_pre_save_def
      reduce_stock_def order_line_def Let_def)

theorem checkout_fails_mid_loop_witness:
  "checkout demo_env demo_store (demo_session [demo_line ''Red'' 3, demo_line ''Blue'' 3]) demo_request =
     (Inl (NoLongerAvailable ''Runner'' 9),
      demo_store\<lparr>products := [''a1'' \<mapsto> demo_product
          \<lparr>p_sizes := [\<lparr>s_size = 9, s_stock = 2\<rparr>, \<lparr>s_size = 10, s_stock = 2\<rparr>],
           p_totalStock := 4, p_soldCount := 3\<rparr>]\<rparr>,
      demo_session [demo_line ''Red'' 3, demo_line ''Blue'' 3]) \<and>
   bucket_stock demo_db ''a1'' 9 = Some 5 \<and> sold_count demo_db ''a1'' = Some 0"
proof -
  let ?db' = "[''a1'' \<mapsto> demo_product\<lparr>p_sizes := [\<lparr>s_size = 9, s_stock = 2\<rparr>, \<lparr>s_size = 10, s_stock = 2\<rparr>],
                  p_totalStock := 4, p_soldCount := 3\<rparr>]"
  have user: "sess_user (demo_session [demo_line ''Red'' 3, demo_line ''Blue'' 3]) = Some ''u1''"
    and cart: "sess_cart (demo_session [demo_line ''Red'' 3, demo_line ''Blue'' 3])
        = Some (demo_cart [demo_line ''Red'' 3, demo_line ''Blue'' 3])"
      "items (demo_cart [demo_line ''Red'' 3, demo_line ''Blue'' 3])
        = [demo_line ''Red'' 3] @ demo_line ''Blue'' 3 # []"
    by (simp_all add: demo_session_def demo_cart_def emptyCart_def)
  have pre: "process_lines (products demo_store) [demo_line ''Red'' 3] [] =
      (Inr [order_line demo_product (demo_line ''Red'' 3)], ?db')"
    using demo_first_line by (simp add: demo_store_def)
  have p: "?db' (ci_productId (demo_line ''Blue'' 3)) = Some (demo_product
      \<lparr>p_sizes := [\<lparr>s_size = 9, s_stock = 2\<rparr>, \<lparr>s_size = 10, s_stock = 2\<rparr>],
       p_totalStock := 4, p_soldCount := 3\<rparr>)"
    by (simp add: demo_line_def)
  have bad: "\<not> line_in_stock ?db' (demo_line ''Blue'' 3)"
    by (simp add: line_in_stock_def bucket_stock_def demo_line_def)
  have before: "bucket_stock demo_db ''a1'' 9 = Some 5" "sold_count demo_db ''a1'' = Some 0"
    by (simp_all add: bucket_stock_def sold_count_def demo_db_def demo_product_def)
  from checkout_fails_mid_loop [OF user cart pre p bad, of demo_env demo_request] before
  show ?thesis
    by (simp add: demo_line_def)
qed

subsection \<open>The created order\<close>

lemma checkout_InrE:
  assumes "checkout e st sess r = (Inr (oid, num), st', sess')"
  obtains uid c ois db' where
    "sess_user sess = Some uid" "sess_cart sess = Some c" "items c \<noteq> []"
    "process_lines (products st) (items c) [] = (Inr ois, db')"
    "order_valid (order_doc e uid c ois r)"
    "st' = \<lparr>products = db', orders = orders st @ [order_pre_save e (orders st) (order_doc e uid c ois r)]\<rparr>"
    "oid = o_id (order_pre_save e (orders st) (order_doc e uid c ois r))"
    "num = o_orderNumber (order_pre_save e (orders st) (order_doc e uid c ois r))"
    "sess' = sess\<lparr>sess_cart := Some emptyCart\<rparr>"
  using assms
  by (auto simp: checkout_def Order_create_def order_save_def Let_def
      split: option.splits if_splits sum.splits prod.splits)

lemma demo_cart_values:
  "items (demo_cart [demo_line ''Red'' 3]) = [demo_line ''Red'' 3]"
  "subtotal (demo_cart [demo_line ''Red'' 3]) = 120"
  "tax (demo_cart [demo_line ''Red'' 3]) = 48 / 5"
  by (simp_all add: demo_cart_def demo_line_def calculateTotals_def emptyCart_def Let_def)

subsection \<open>Order numbers\<close>

lemma digit_char_value: "d < 10 \<Longrightarrow> (of_char (digit_char d) :: nat) = 48 + d"
proof -
  assume "d < 10"
  then have "d \<in> {0, 1, 2, 3, 4, 5, 6, 7, 8, 9}"
    by auto
  then show ?thesis
    by (auto simp: digit_char_def)
qed

lemma digits_value_snoc:
  "digits_value (s @ [c]) = 10 * digits_value s + ((of_char c :: nat) - 48)"
  by (simp add: digits_value_def)

lemma digits_value_String_nat: "digits_value (String_nat n) = n"
proof (induction n rule: String_nat.induct)
  case (1 n)
  show ?case
  proof (cases "n < 10")
    case True
    then show ?thesis
      by (subst String_nat.simps) (simp add: digits_value_def digit_char_value)
  next
    case False
    with "1" have "digits_value (String_nat (n div 10)) = n div 10"
      by simp
    with False show ?thesis
      by (subst String_nat.simps) (simp add: digits_value_snoc digit_char_value)
  qed
qed

lemma is_digit_digit_char: "d < 10 \<Longrightarrow> is_digit (digit_char d)"
  by (simp add: is_digit_def digit_char_value)

lemma String_nat_digits: "list_all is_digit (String_nat n)"
proof (induction n rule: String_nat.induct)
  case (1 n)
  show ?case
  proof (cases "n < 10")
    case True
    then show ?thesis
      by (subst String_nat.simps) (simp add: is_digit_digit_char)
  next
    case False
    with "1" show ?thesis
      by (subst String_nat.simps) (simp add: is_digit_digit_char)
  qed
qed

lemma length_String_nat:
  "length (String_nat n) = (if n < 10 then 1 else Suc (length (String_nat (n div 10))))"
  by (subst String_nat.simps) simp

lemma length_String_nat_4: "1000 \<le> n \<Longrightarrow> n \<le> 9999 \<Longrightarrow> length (String_nat n) = 4"
proof -
  assume n: "1000 \<le> n" "n \<le> 9999"
  then have "\<not> n < 10" "\<not> n div 10 < 10" "\<not> n div 10 div 10 < 10" "n div 10 div 10 div 10 < 10"
    by (simp_all add: div_mult2_eq [symmetric] less_mult_imp_div_less)
  then show ?thesis
    by (simp add: length_String_nat [of n] length_String_nat [of "n div 10"]
        length_String_nat [of "n div 10 div 10"] length_String_nat [of "n div 10 div 10 div 10"])
qed

lemma length_String_nat_le2: "n < 100 \<Longrightarrow> length (String_nat n) \<le> 2"
  by (simp add: length_String_nat [of n] length_String_nat [of "n div 10"] less_mult_imp_div_less)

lemma digits_value_zeros: "digits_value (replicate k (CHR ''0'') @ s) = digits_value s"
  by (induction k) (simp_all add: digits_value_def)

lemma digits_value_padStart: "digits_value (padStart k (CHR ''0'') s) = digits_value s"
  by (simp add: padStart_def digits_value_zeros)

lemma length_padStart: "length (padStart k c s) = max k (length s)"
  by (simp add: padStart_def)

lemma padStart_digits: "list_all is_digit s \<Longrightarrow> list_all is_digit (padStart k (CHR ''0'') s)"
  by (auto simp: padStart_def is_digit_def list_all_iff)

lemma demo_order_number: "order_number demo_env 0 = ''ORD202403000001''"
proof -
  have str: "String_nat 2024 = ''2024''" "String_nat 3 = ''3''" "String_nat (Suc 0) = ''1''"
    by (simp_all add: String_nat.simps digit_char_def)
  have pad: "padStart 2 (CHR ''0'') ''3'' = ''03''" "padStart 6 (CHR ''0'') ''1'' = ''000001''"
    by (simp_all add: padStart_def eval_nat_numeral)
  show ?thesis
    by (simp add: order_number_def demo_env_def str pad)
qed

lemma demo_order_created:
  "Order_create demo_env []
     (order_doc demo_env ''u1'' (demo_cart [demo_line ''Red'' 3]) (o_items demo_order) demo_request)
     = Inr (demo_order, [demo_order])"
proof -
  have env: "e_now demo_env = 1709251200000" "e_newId demo_env = ''o1''"
    by (simp_all add: demo_env_def)
  have doc: "order_pre_save demo_env []
      (order_doc demo_env ''u1'' (demo_cart [demo_line ''Red'' 3]) (o_items demo_order) demo_request)
      = demo_order"
    by (simp add: order_pre_save_def order_doc_def demo_order_number demo_cart_values
        shipping_cost_def or_default_def demo_request_def demo_order_def env Let_def)
  have valid: "order_valid
      (order_doc demo_env ''u1'' (demo_cart [demo_line ''Red'' 3]) (o_items demo_order) demo_request)"
    by (simp add: order_valid_def order_doc_def demo_order_def demo_request_def Let_def)
  show ?thesis
    by (simp add: Order_create_def order_save_def valid doc Let_def)
qed

text \<open>The example checkout, over any product collection on which the loop succeeds.\<close>

lemma demo_checkout_from:
  assumes loop: "process_lines db [demo_line ''Red'' 3] [] = (Inr (o_items demo_order), db')"
  shows "checkout demo_env \<lparr>products = db, orders = []\<rparr> (demo_session [demo_line ''Red'' 3])
           demo_request =
         (Inr (''o1'', ''ORD202403000001''), \<lparr>products = db', orders = [demo_order]\<rparr>, after_checkout)"
proof -
  have run: "process_lines db (items (demo_cart [demo_line ''Red'' 3])) [] =
     (Inr (o_items demo_order), db')"
    unfolding demo_cart_values(1) by (rule loop)
  have sess: "sess_user (demo_session [demo_line ''Red'' 3]) = Some ''u1''"
    "sess_cart (demo_session [demo_line ''Red'' 3]) = Some (demo_cart [demo_line ''Red'' 3])"
    "demo_session [demo_line ''Red'' 3]\<lparr>sess_cart := Some emptyCart\<rparr> = after_checkout"
    "items (demo_cart [demo_line ''Red'' 3]) \<noteq> []"
    by (simp_all add: demo_session_def after_checkout_def demo_cart_values(1))
  have ids: "o_id demo_order = ''o1''" "o_orderNumber demo_order = ''ORD202403000001''"
    by (simp_all add: demo_order_def)
  show ?thesis
    by (simp add: checkout_def sess run demo_order_created ids Let_def)
qed

lemma demo_checkout:
  "checkout demo_env demo_store (demo_session [demo_line ''Red'' 3]) demo_request =
     (Inr (''o1'', ''ORD202403000001''),
      \<lparr>products = [''a1'' \<mapsto> sold_product], orders = [demo_order]\<rparr>, after_checkout)"
proof -
  have "process_lines demo_db [demo_line ''Red'' 3] [] =
     (Inr (o_items demo_order), [''a1'' \<mapsto> sold_product])"
    by (simp add: demo_db_def demo_product_def demo_line_def product_save_def product_valid_def product_pre_save_def
        reduce_stock_def order_line_def sold_product_def demo_order_def Let_def)
  from demo_checkout_from [OF this] show ?thesis
    by (simp add: demo_store_def)
qed

text \<open>
  Claim C9. The order number of every order that checkout creates is \<open>ORD\<close>, then the year
  in four digits (for a clock between the years 1000 and 9999), then the month of the year
  in two digits with a leading zero, then the number of orders that existed before plus
  one, padded with zeros on the left to at least six digits. The order stored last carries
  that number.
\<close>

theorem order_number_format:
  assumes ok: "checkout e st sess r = (Inr (oid, num), st', sess')"
    and year: "1000 \<le> e_year e" "e_year e \<le> 9999"
    and month: "e_month e < 12"
  shows "\<exists>y m n. num = ''ORD'' @ y @ m @ n \<and>
           length y = 4 \<and> length m = 2 \<and> 6 \<le> length n \<and>
           list_all is_digit y \<and> list_all is_digit m \<and> list_all is_digit n \<and>
           digits_value y = e_year e \<and> digits_value m = e_month e + 1 \<and>
           digits_value n = length (orders st) + 1 \<and>
           n = padStart 6 (CHR ''0'') (String_nat (length (orders st) + 1)) \<and>
           orders st' = orders st @ [last (orders st')] \<and>
           o_id (last (orders st')) = oid \<and> o_orderNumber (last (orders st')) = num"
proof -
  let ?y = "String_nat (e_year e)"
  let ?m = "padStart 2 (CHR ''0'') (String_nat (e_month e + 1))"
  let ?n = "padStart 6 (CHR ''0'') (String_nat (length (orders st) + 1))"
  from ok obtain uid c ois db' where
    st': "st' = \<lparr>products = db', orders = orders st @ [order_pre_save e (orders st) (order_doc e uid c ois r)]\<rparr>"
    and oid: "oid = o_id (order_pre_save e (orders st) (order_doc e uid c ois r))"
    and num: "num = o_orderNumber (order_pre_save e (orders st) (order_doc e uid c ois r))"
    by (rule checkout_InrE)
  from num have "num = ''ORD'' @ ?y @ ?m @ ?n"
    by (simp add: order_pre_save_def order_doc_def order_number_def Let_def)
  moreover have "length ?y = 4"
    using year by (rule length_String_nat_4)
  moreover from month have "length ?m = 2"
    using length_String_nat_le2 [of "e_month e + 1"] by (simp add: length_padStart)
  moreover have "6 \<le> length ?n"
    by (simp add: length_padStart)
  moreover have "list_all is_digit ?y" "list_all is_digit ?m" "list_all is_digit ?n"
    by (simp_all add: String_nat_digits padStart_digits)
  moreover have "digits_value ?y = e_year e" "digits_value ?m = e_month e + 1"
    "digits_value ?n = length (orders st) + 1"
    by (simp_all add: digits_value_String_nat digits_value_padStart)
  moreover have "orders st' = orders st @ [last (orders st')]"
    "o_id (last (orders st')) = oid" "o_orderNumber (last (orders st')) = num"
    by (simp_all add: st' oid num)
  ultimately show ?thesis
    by blast
qed

theorem order_number_format_witness:
  "checkout demo_env demo_store (demo_session [demo_line ''Red'' 3]) demo_request =
     (Inr (''o1'', ''ORD202403000001''),
      \<lparr>products = [''a1'' \<mapsto> sold_product], orders = [demo_order]\<rparr>, after_checkout) \<and>
   (\<exists>y m n. ''ORD202403000001'' = ''ORD'' @ y @ m @ n \<and> length y = 4 \<and> length m = 2 \<and>
      digits_value y = 2024 \<and> digits_value m = 3 \<and> digits_value n = 1)"
proof -
  have env: "1000 \<le> e_year demo_env" "e_year demo_env \<le> 9999" "e_month demo_env < 12"
    "e_year demo_env = 2024" "e_month demo_env + 1 = 3" "length (orders demo_store) + 1 = 1"
    by (simp_all add: demo_env_def demo_store_def)
  from order_number_format [OF demo_checkout env(1-3)] demo_checkout show ?thesis
    unfolding env(4-6) by blast
qed

subsection \<open>Shipping cost and order total\<close>

text \<open>
  Claim C8. The order that a successful checkout stores has shipping cost 19.99 for
  express, 29.99 for overnight and otherwise (standard, the default) 0 if the cart's
  subtotal is at least 100 and 9.99 if not; its total is its subtotal plus its shipping
  cost plus its tax, the subtotal and tax being the cart's. For a cart with consistent
  totals and subtotal 120 under standard shipping: shipping 0, tax 9.60, total 129.60.
\<close>

theorem checkout_order_totals:
  assumes ok: "checkout e st sess r = (Inr (oid, num), st', sess')"
    and cart: "sess_cart sess = Some c"
  shows "\<exists>ord. orders st' = orders st @ [ord] \<and> o_id ord = oid \<and>
           o_shippingCost ord =
             (if cr_shippingMethod r = Some ''express'' then 1999 / 100
              else if cr_shippingMethod r = Some ''overnight'' then 2999 / 100
              else if 100 \<le> subtotal c then 0 else 999 / 100) \<and>
           o_subtotal ord = subtotal c \<and> o_tax ord = tax c \<and>
           o_total ord = o_subtotal ord + o_shippingCost ord + o_tax ord \<and>
           (sums_ok c \<and> subtotal c = 120 \<and>
            cr_shippingMethod r \<noteq> Some ''express'' \<and> cr_shippingMethod r \<noteq> Some ''overnight''
              \<longrightarrow> o_shippingCost ord = 0 \<and> o_tax ord = 48 / 5 \<and> o_total ord = 648 / 5)"
proof -
  from ok obtain uid c' ois db' where c': "sess_cart sess = Some c'"
    and st': "st' = \<lparr>products = db', orders = orders st @ [order_pre_save e (orders st) (order_doc e uid c' ois r)]\<rparr>"
    and oid: "oid = o_id (order_pre_save e (orders st) (order_doc e uid c' ois r))"
    by (rule checkout_InrE)
  from c' cart have [simp]: "c' = c"
    by simp
  let ?ord = "order_pre_save e (orders st) (order_doc e uid c ois r)"
  have "orders st' = orders st @ [?ord]" "o_id ?ord = oid"
    by (simp_all add: st' oid)
  moreover have "o_shippingCost ?ord =
             (if cr_shippingMethod r = Some ''express'' then 1999 / 100
              else if cr_shippingMethod r = Some ''overnight'' then 2999 / 100
              else if 100 \<le> subtotal c then 0 else 999 / 100)"
    "o_subtotal ?ord = subtotal c" "o_tax ?ord = tax c"
    "o_total ?ord = o_subtotal ?ord + o_shippingCost ?ord + o_tax ?ord"
    by (simp_all add: order_pre_save_def order_doc_def shipping_cost_def Let_def)
  moreover have "o_shippingCost ?ord = 0 \<and> o_tax ?ord = 48 / 5 \<and> o_total ?ord = 648 / 5"
    if "sums_ok c" "subtotal c = 120" "cr_shippingMethod r \<noteq> Some ''express''"
      "cr_shippingMethod r \<noteq> Some ''overnight''"
    using that
    by (simp add: order_pre_save_def order_doc_def shipping_cost_def sums_ok_def Let_def)
  ultimately show ?thesis
    by blast
qed

theorem checkout_order_totals_witness:
  "checkout demo_env demo_store (demo_session [demo_line ''Red'' 3]) demo_request =
     (Inr (''o1'', ''ORD202403000001''),
      \<lparr>products = [''a1'' \<mapsto> sold_product], orders = [demo_order]\<rparr>, after_checkout) \<and>
   subtotal (demo_cart [demo_line ''Red'' 3]) = 120 \<and>
   cr_shippingMethod demo_request = None \<and>
   o_shippingCost demo_order = 0 \<and> o_tax demo_order = 48 / 5 \<and> o_total demo_order = 648 / 5"
proof -
  have cart: "sess_cart (demo_session [demo_line ''Red'' 3]) = Some (demo_cart [demo_line ''Red'' 3])"
    by (simp add: demo_session_def)
  have c: "sums_ok (demo_cart [demo_line ''Red'' 3])" "subtotal (demo_cart [demo_line ''Red'' 3]) = 120"
    by (simp_all add: demo_cart_def calculateTotals_sums_ok)
      (simp add: demo_line_def calculateTotals_def emptyCart_def Let_def)
  have r: "cr_shippingMethod demo_request = None"
    by (simp add: demo_request_def)
  from checkout_order_totals [OF demo_checkout cart] c r
  have "o_shippingCost demo_order = 0 \<and> o_tax demo_order = 48 / 5 \<and> o_total demo_order = 648 / 5"
    by (simp add: demo_store_def)
  with demo_checkout c r show ?thesis
    by simp
qed

subsection \<open>Cancellation\<close>

lemma restored_Nil: "restored [] pid p = p"
  by (simp add: restored_def odemand_def osold_def)

lemma restored_Cons_other:
  "oi_product item \<noteq> pid \<Longrightarrow> restored (item # rest) pid p = restored rest pid p"
  by (simp add: restored_def odemand_def osold_def)

lemma restored_Cons_same:
  "restored (item # rest) (oi_product item) p = restored rest (oi_product item) (inc_stock item p)"
  by (simp add: restored_def odemand_def osold_def inc_stock_def o_def algebra_simps)

lemma restore_stock_effect:
  "restore_stock db ois pid = map_option (restored ois pid) (db pid)"
proof (induction ois arbitrary: db)
  case Nil
  show ?case
    by (cases "db pid") (simp_all add: restored_Nil)
next
  case (Cons item rest)
  show ?case
  proof (cases "db (oi_product item)")
    case None
    then show ?thesis
      by (cases "oi_product item = pid") (simp_all add: Cons.IH restored_Cons_other)
  next
    case (Some p)
    show ?thesis
    proof (cases "oi_product item = pid")
      case True
      with Some show ?thesis
        using restored_Cons_same [of item rest p] by (simp add: Cons.IH)
    next
      case False
      with Some show ?thesis
        by (simp add: Cons.IH restored_Cons_other)
    qed
  qed
qed

lemma order_valid_kept [simp]:
  "order_valid (ord\<lparr>o_status := s, o_statusHistory := h\<rparr>) = order_valid ord"
  "order_valid (order_pre_save e os ord) = order_valid ord"
  by (simp_all add: order_valid_def order_pre_save_def)

text \<open>
  Cancellation of an order the user owns: it succeeds exactly from pending or confirmed
  (for an order document that passes the schema); every bucket of the size a line names
  gains that line's quantity, the sold count loses it, the status becomes cancelled and
  one history entry is appended. From any other status nothing is written.
\<close>

lemma cancel_order_found:
  assumes user: "sess_user sess = Some uid"
    and found: "findIndex (\<lambda>ord. o_id ord = oid \<and> o_user ord = uid) (orders st) = Some k"
  shows "(fst (cancel_order e st sess oid) = Inr () \<longleftrightarrow>
            cancellable (o_status (orders st ! k)) \<and> order_valid (orders st ! k)) \<and>
         (\<not> cancellable (o_status (orders st ! k)) \<longrightarrow>
            cancel_order e st sess oid = (Inl CannotCancel, st)) \<and>
         (cancellable (o_status (orders st ! k)) \<and> order_valid (orders st ! k) \<longrightarrow>
            (\<exists>st'. cancel_order e st sess oid = (Inr (), st') \<and>
               (\<forall>pid. products st' pid = map_option (restored (o_items (orders st ! k)) pid) (products st pid)) \<and>
               length (orders st') = length (orders st) \<and>
               (\<forall>j. j \<noteq> k \<longrightarrow> orders st' ! j = orders st ! j) \<and>
               o_status (orders st' ! k) = Cancelled \<and>
               o_statusHistory (orders st' ! k) =
                 o_statusHistory (orders st ! k) @
                   [\<lparr>h_status = Cancelled, h_timestamp = e_now e, h_note = ''Cancelled by customer''\<rparr>] \<and>
               o_items (orders st' ! k) = o_items (orders st ! k)))"
proof -
  from findIndex_SomeD [OF found] have k: "k < length (orders st)"
    by simp
  show ?thesis
    using user found k
    by (auto simp: cancel_order_def cancellable_def Let_def restore_stock_effect order_save_def
        order_pre_save_def)
qed

lemma map_size_update:
  "map s_size (xs[i := (xs ! i)\<lparr>s_stock := n\<rparr>]) = map s_size xs"
  by (induction xs arbitrary: i) (simp_all split: nat.splits)

lemma update_first_distinct:
  "distinct (map s_size xs) \<Longrightarrow> findIndex (\<lambda>s. s_size s = sz) xs = Some i \<Longrightarrow>
     xs[i := (xs ! i)\<lparr>s_stock := s_stock (xs ! i) - q\<rparr>] =
       map (\<lambda>s. if s_size s = sz then s\<lparr>s_stock := s_stock s - q\<rparr> else s) xs"
proof (induction xs arbitrary: i)
  case Nil
  then show ?case by simp
next
  case (Cons x xs)
  show ?case
  proof (cases "s_size x = sz")
    case True
    with Cons.prems(1) have "\<forall>y\<in>set xs. s_size y \<noteq> sz"
      by (auto simp: image_iff)
    then have "map (\<lambda>s. if s_size s = sz then s\<lparr>s_stock := s_stock s - q\<rparr> else s) xs = xs"
      by (induction xs) auto
    with True Cons.prems(2) show ?thesis
      by simp
  next
    case False
    with Cons.prems(2) obtain k where k: "findIndex (\<lambda>s. s_size s = sz) xs = Some k" "i = Suc k"
      by auto
    from Cons.prems(1) have "distinct (map s_size xs)"
      by simp
    from Cons.IH [OF this k(1)] False k(2) show ?thesis
      by simp
  qed
qed

lemma process_lines_sizes:
  "process_lines db ls acc = (Inr acc', db') \<Longrightarrow> sizes_distinct db \<Longrightarrow>
     map_option p_sizes (db' pid) = map_option (\<lambda>p. taken ls pid (p_sizes p)) (db pid)"
proof (induction ls arbitrary: db acc)
  case Nil
  then show ?case
    by (cases "db pid") (simp_all add: taken_def demand_def)
next
  case (Cons item rest)
  from Cons.prems(1) obtain p i where p: "db (ci_productId item) = Some p"
    and i: "findIndex (\<lambda>s. s_size s = ci_size item) (p_sizes p) = Some i"
    and rest: "process_lines (db(ci_productId item \<mapsto> line_saved i item p)) rest
       (acc @ [order_line (line_saved i item p) item]) = (Inr acc', db')"
    by (rule process_lines_Cons_Inr)
  let ?db1 = "db(ci_productId item \<mapsto> line_saved i item p)"
  from Cons.prems(2) p have dp: "distinct (map s_size (p_sizes p))"
    by (auto simp: sizes_distinct_def)
  have saved: "p_sizes (line_saved i item p) =
      map (\<lambda>s. if s_size s = ci_size item then s\<lparr>s_stock := s_stock s - ci_quantity item\<rparr> else s)
        (p_sizes p)"
    using update_first_distinct [OF dp i] by (simp add: line_saved_def reduce_stock_def)
  have "sizes_distinct ?db1"
    using Cons.prems(2) dp
    by (auto simp: sizes_distinct_def line_saved_def reduce_stock_def map_size_update)
  from Cons.IH [OF rest this]
  have IH: "map_option p_sizes (db' pid) = map_option (\<lambda>p. taken rest pid (p_sizes p)) (?db1 pid)" .
  show ?case
  proof (cases "pid = ci_productId item")
    case False
    then have "taken (item # rest) pid = taken rest pid"
      by (simp add: taken_def demand_def fun_eq_iff)
    with IH False show ?thesis
      by simp
  next
    case True
    have "taken rest pid (p_sizes (line_saved i item p)) = taken (item # rest) pid (p_sizes p)"
      unfolding saved using True
      by (simp add: taken_def demand_def o_def algebra_simps)
    with IH True p show ?thesis
      by simp
  qed
qed

lemma process_lines_odemand:
  "process_lines db ls acc = (Inr acc', db') \<Longrightarrow>
     odemand acc' pid sz = odemand acc pid sz + demand ls pid sz \<and>
     osold acc' pid = osold acc pid + sold ls pid"
proof (induction ls arbitrary: db acc)
  case Nil
  then show ?case
    by (simp add: demand_def sold_def)
next
  case (Cons item rest)
  from Cons.prems obtain p i where
    "process_lines (db(ci_productId item \<mapsto> line_saved i item p)) rest
       (acc @ [order_line (line_saved i item p) item]) = (Inr acc', db')"
    by (rule process_lines_Cons_Inr)
  from Cons.IH [OF this] show ?case
    by (simp add: odemand_def osold_def demand_def sold_def order_line_def)
qed

lemma restored_taken:
  assumes "\<And>sz. odemand ois pid sz = demand ls pid sz"
  shows "p_sizes (restored ois pid (q\<lparr>p_sizes := taken ls pid sizes\<rparr>)) = sizes"
proof -
  have "map (\<lambda>s. s\<lparr>s_stock := s_stock s + demand ls pid (s_size s)\<rparr>)
          (map (\<lambda>s. s\<lparr>s_stock := s_stock s - demand ls pid (s_size s)\<rparr>) sizes) = sizes"
    by (induction sizes) simp_all
  with assms show ?thesis
    by (simp add: restored_def taken_def)
qed

text \<open>
  When no product lists a size twice, cancelling an order right after the checkout that
  placed it puts every product's buckets and sold count back where they were.
\<close>

lemma cancel_after_checkout:
  assumes ok: "checkout e0 st0 sess0 r = (Inr (oid, num), st1, sess1)"
    and fresh: "\<forall>ord\<in>set (orders st0). o_id ord \<noteq> oid"
    and dist: "sizes_distinct (products st0)"
  shows "\<exists>st2. cancel_order e st1 sess1 oid = (Inr (), st2) \<and>
           (\<forall>pid. map_option p_sizes (products st2 pid) = map_option p_sizes (products st0 pid) \<and>
                  sold_count (products st2) pid = sold_count (products st0) pid) \<and>
           o_status (last (orders st2)) = Cancelled"
proof -
  from ok obtain uid c ois db' where user: "sess_user sess0 = Some uid"
    and run: "process_lines (products st0) (items c) [] = (Inr ois, db')"
    and docv: "order_valid (order_doc e0 uid c ois r)"
    and st1: "st1 = \<lparr>products = db', orders = orders st0 @ [order_pre_save e0 (orders st0) (order_doc e0 uid c ois r)]\<rparr>"
    and oid: "oid = o_id (order_pre_save e0 (orders st0) (order_doc e0 uid c ois r))"
    and sess1: "sess1 = sess0\<lparr>sess_cart := Some emptyCart\<rparr>"
    by (rule checkout_InrE)
  let ?ord = "order_pre_save e0 (orders st0) (order_doc e0 uid c ois r)"
  have ord: "o_id ?ord = oid" "o_user ?ord = uid" "o_status ?ord = Confirmed" "o_items ?ord = ois"
    "order_valid ?ord"
    by (simp_all add: oid docv) (simp_all add: order_pre_save_def order_doc_def Let_def)
  let ?k = "length (orders st0)"
  have idx: "findIndex (\<lambda>ord. o_id ord = oid \<and> o_user ord = uid) (xs @ [?ord]) = Some (length xs)"
    if "\<forall>ord\<in>set xs. o_id ord \<noteq> oid" for xs
    using that ord(1,2) by (induction xs) simp_all
  have found: "findIndex (\<lambda>ord. o_id ord = oid \<and> o_user ord = uid) (orders st1) = Some ?k"
    unfolding st1 using idx [OF fresh] by simp
  have user1: "sess_user sess1 = Some uid"
    by (simp add: sess1 user)
  have k: "orders st1 ! ?k = ?ord" "length (orders st1) = Suc ?k"
    by (simp_all add: st1)
  from cancel_order_found [OF user1 found, of e] ord(3,4,5) k(1)
  obtain st2 where st2: "cancel_order e st1 sess1 oid = (Inr (), st2)"
    and prods: "\<And>pid. products st2 pid = map_option (restored ois pid) (products st1 pid)"
    and len: "length (orders st2) = length (orders st1)"
    and status: "o_status (orders st2 ! ?k) = Cancelled"
    by (auto simp: cancellable_def)
  from len k(2) have "last (orders st2) = orders st2 ! ?k"
    by (cases "orders st2" rule: rev_cases) (simp_all add: nth_append)
  with status have last: "o_status (last (orders st2)) = Cancelled"
    by simp
  have od: "odemand ois pid sz = demand (items c) pid sz" "osold ois pid = sold (items c) pid"
    for pid sz
    using process_lines_odemand [OF run, of pid sz] by (simp_all add: odemand_def osold_def)
  have eq: "map_option p_sizes (products st2 pid) = map_option p_sizes (products st0 pid) \<and>
      sold_count (products st2) pid = sold_count (products st0) pid" for pid
  proof (cases "products st0 pid")
    case None
    with process_lines_sizes [OF run dist, of pid] have "db' pid = None"
      by simp
    with None prods [of pid] show ?thesis
      by (simp add: st1 sold_count_def)
  next
    case (Some p)
    with process_lines_sizes [OF run dist, of pid] obtain p' where
      p': "db' pid = Some p'" "p_sizes p' = taken (items c) pid (p_sizes p)"
      by auto
    from process_lines_effect [OF run, of pid] Some p'(1)
    have sc: "p_soldCount p' = p_soldCount p + sold (items c) pid"
      by (simp add: sold_count_def)
    have "p' = p'\<lparr>p_sizes := taken (items c) pid (p_sizes p)\<rparr>"
      using p'(2) by simp
    then have "p_sizes (restored ois pid p') = p_sizes p"
      using restored_taken [where ois = ois and pid = pid and ls = "items c" and q = p'
          and sizes = "p_sizes p"] od(1) by simp
    moreover have "p_soldCount (restored ois pid p') = p_soldCount p"
      using sc od(2) by (simp add: restored_def)
    ultimately show ?thesis
      using Some p'(1) prods [of pid] by (simp add: st1 sold_count_def)
  qed
  from st2 eq last show ?thesis
    by blast
qed

lemma demo_cancel:
  "cancel_order demo_env \<lparr>products = [''a1'' \<mapsto> p], orders = [demo_order]\<rparr> after_checkout ''o1'' =
     (Inr (), \<lparr>products = [''a1'' \<mapsto> inc_stock (hd (o_items demo_order)) p],
               orders = [cancelled_order]\<rparr>)"
  by (simp add: cancel_order_def after_checkout_def demo_order_def cancelled_order_def
      order_save_def order_valid_def order_pre_save_def demo_env_def Let_def)

lemma dup_checkout:
  "checkout demo_env dup_store (demo_session [demo_line ''Red'' 3]) demo_request =
     (Inr (''o1'', ''ORD202403000001''),
      \<lparr>products = [''a1'' \<mapsto> dup_product
          \<lparr>p_sizes := [\<lparr>s_size = 9, s_stock = 2\<rparr>, \<lparr>s_size = 9, s_stock = 7\<rparr>],
           p_totalStock := 9, p_soldCount := 3\<rparr>],
       orders = [demo_order]\<rparr>,
      after_checkout)"
proof -
  have "process_lines [''a1'' \<mapsto> dup_product] [demo_line ''Red'' 3] [] =
     (Inr (o_items demo_order), [''a1'' \<mapsto> dup_product
          \<lparr>p_sizes := [\<lparr>s_size = 9, s_stock = 2\<rparr>, \<lparr>s_size = 9, s_stock = 7\<rparr>],
           p_totalStock := 9, p_soldCount := 3\<rparr>])"
    by (simp add: dup_product_def demo_product_def demo_line_def product_save_def product_valid_def product_pre_save_def
        reduce_stock_def order_line_def demo_order_def Let_def)
  from demo_checkout_from [OF this] show ?thesis
    by (simp add: dup_store_def)
qed

text \<open>
  Claim C4 fails on the code for a product that lists a size twice. The example product has
  two buckets of size 9, holding 5 and 7. Checkout of three pairs takes them from the first
  bucket only (2 and 7), as \<^verbatim>\<open>findIndex\<close> finds it. Cancelling that confirmed order
  succeeds and gives three pairs back to both buckets (5 and 10), as the array filter
  matches both: the stock is not back at its level before the order.
\<close>

theorem cancel_duplicate_sizes_over_restores:
  "checkout demo_env dup_store (demo_session [demo_line ''Red'' 3]) demo_request =
     (Inr (''o1'', ''ORD202403000001''),
      \<lparr>products = [''a1'' \<mapsto> dup_product
          \<lparr>p_sizes := [\<lparr>s_size = 9, s_stock = 2\<rparr>, \<lparr>s_size = 9, s_stock = 7\<rparr>],
           p_totalStock := 9, p_soldCount := 3\<rparr>],
       orders = [demo_order]\<rparr>,
      after_checkout) \<and>
   o_status demo_order = Confirmed \<and>
   cancel_order demo_env
     \<lparr>products = [''a1'' \<mapsto> dup_product
          \<lparr>p_sizes := [\<lparr>s_size = 9, s_stock = 2\<rparr>, \<lparr>s_size = 9, s_stock = 7\<rparr>],
           p_totalStock := 9, p_soldCount := 3\<rparr>],
       orders = [demo_order]\<rparr> after_checkout ''o1'' =
     (Inr (),
      \<lparr>products = [''a1'' \<mapsto> dup_product
          \<lparr>p_sizes := [\<lparr>s_size = 9, s_stock = 5\<rparr>, \<lparr>s_size = 9, s_stock = 10\<rparr>],
           p_totalStock := 9, p_soldCount := 0\<rparr>],
       orders = [cancelled_order]\<rparr>) \<and>
   p_sizes dup_product = [\<lparr>s_size = 9, s_stock = 5\<rparr>, \<lparr>s_size = 9, s_stock = 7\<rparr>]"
proof -
  have "inc_stock (hd (o_items demo_order)) (dup_product
          \<lparr>p_sizes := [\<lparr>s_size = 9, s_stock = 2\<rparr>, \<lparr>s_size = 9, s_stock = 7\<rparr>],
           p_totalStock := 9, p_soldCount := 3\<rparr>)
      = dup_product\<lparr>p_sizes := [\<lparr>s_size = 9, s_stock = 5\<rparr>, \<lparr>s_size = 9, s_stock = 10\<rparr>],
           p_totalStock := 9, p_soldCount := 0\<rparr>"
    by (simp add: inc_stock_def demo_order_def dup_product_def)
  with dup_checkout demo_cancel [of "dup_product
          \<lparr>p_sizes := [\<lparr>s_size = 9, s_stock = 2\<rparr>, \<lparr>s_size = 9, s_stock = 7\<rparr>],
           p_totalStock := 9, p_soldCount := 3\<rparr>"]
  show ?thesis
    by (simp add: demo_order_def dup_product_def)
qed

subsection \<open>The stock total\<close>

text \<open>
  Every save recomputes the total, so the admin inventory update and the checkout loop
  keep \<open>totalStock\<close> equal to the sum over the buckets.
\<close>

lemma foldl_stock_sum:
  "foldl (\<lambda>sum s. sum + s_stock s) a xs = a + sum_list (map s_stock xs)"
  by (induction xs arbitrary: a) simp_all

lemma product_pre_save_total: "stock_total_ok (product_pre_save b p)"
  by (simp add: stock_total_ok_def product_pre_save_def foldl_stock_sum Let_def)

lemma admin_update_stock_total:
  "admin_update_stock db pid sizes = (Inr t, db') \<Longrightarrow>
     \<exists>p. db' pid = Some p \<and> stock_total_ok p \<and> p_sizes p = sizes \<and> t = p_totalStock p"
  by (auto simp: admin_update_stock_def product_save_def product_pre_save_total
      split: option.splits if_splits)

text \<open>Every product the checkout loop has saved carries the recomputed total.\<close>

lemma process_lines_Cons_cases:
  assumes "process_lines db (item # rest) acc = (res, db')"
  shows "db' = db \<or>
         (\<exists>p i. process_lines (db(ci_productId item \<mapsto> line_saved i item p)) rest
                   (acc @ [order_line (line_saved i item p) item]) = (res, db'))"
  using assms
  by (auto simp: product_save_def line_saved_def split: option.splits if_splits sum.splits)

lemma process_lines_total:
  "process_lines db ls acc = (res, db') \<Longrightarrow>
     (\<forall>p. db pid = Some p \<longrightarrow> stock_total_ok p) \<Longrightarrow>
     (\<forall>p. db' pid = Some p \<longrightarrow> stock_total_ok p)"
proof (induction ls arbitrary: db acc)
  case Nil
  then show ?case by simp
next
  case (Cons item rest)
  from process_lines_Cons_cases [OF Cons.prems(1)] show ?case
  proof
    assume "db' = db"
    with Cons.prems(2) show ?thesis by simp
  next
    assume "\<exists>p i. process_lines (db(ci_productId item \<mapsto> line_saved i item p)) rest
                   (acc @ [order_line (line_saved i item p) item]) = (res, db')"
    then obtain p i where run: "process_lines (db(ci_productId item \<mapsto> line_saved i item p)) rest
        (acc @ [order_line (line_saved i item p) item]) = (res, db')"
      by blast
    have "\<forall>p'. (db(ci_productId item \<mapsto> line_saved i item p)) pid = Some p' \<longrightarrow> stock_total_ok p'"
      using Cons.prems(2) by (simp add: line_saved_def product_pre_save_total)
    from Cons.IH [OF run this] show ?thesis .
  qed
qed

text \<open>
  Claim C3 fails on the code for cancellation. The example product satisfies the invariant
  before and after the checkout of three pairs (total 7, then 4). Cancelling the order
  gives the three pairs back to the bucket through an update that runs no save hook: the
  buckets sum to 7 again while \<open>totalStock\<close> stays 4.
\<close>

theorem cancel_leaves_totalStock_stale:
  "stock_total_ok demo_product \<and>
   checkout demo_env demo_store (demo_session [demo_line ''Red'' 3]) demo_request =
     (Inr (''o1'', ''ORD202403000001''),
      \<lparr>products = [''a1'' \<mapsto> sold_product], orders = [demo_order]\<rparr>, after_checkout) \<and>
   stock_total_ok sold_product \<and>
   cancel_order demo_env \<lparr>products = [''a1'' \<mapsto> sold_product], orders = [demo_order]\<rparr>
       after_checkout ''o1'' =
     (Inr (),
      \<lparr>products = [''a1'' \<mapsto> demo_product\<lparr>p_totalStock := 4\<rparr>], orders = [cancelled_order]\<rparr>) \<and>
   p_totalStock (demo_product\<lparr>p_totalStock := 4\<rparr>) = 4 \<and>
   sum_list (map s_stock (p_sizes (demo_product\<lparr>p_totalStock := 4\<rparr>))) = 7 \<and>
   \<not> stock_total_ok (demo_product\<lparr>p_totalStock := 4\<rparr>)"
proof -
  have "inc_stock (hd (o_items demo_order)) sold_product = demo_product\<lparr>p_totalStock := 4\<rparr>"
    by (simp add: inc_stock_def demo_order_def sold_product_def demo_product_def)
  with demo_checkout demo_cancel [of sold_product] show ?thesis
    by (simp add: stock_total_ok_def sold_product_def demo_product_def)
qed


end
